theory Spec2Isabelle
  imports Main "HOL-Library.Sublist" "HOL-Library.Word"
begin

unbundle bit_operations_syntax

text \<open>
  A shallow embedding of the session layer of \<^verbatim>\<open>mcp-debug\<close>: the retry helper, the
  session actor with its read loop, the typed DAP helpers built on it, and the debugger
  factory. Go functions are HOL functions of the same name; what a function reads from
  its surroundings (the network, the clock, a context, the file system, another actor)
  is an argument of the model, and what it does to them is part of the result.
\<close>

section \<open>Go errors and formatted text\<close>

text \<open>
  A Go \<^verbatim>\<open>error\<close> value is either \<^verbatim>\<open>nil\<close> (modelled as \<open>None\<close> of \<open>error option\<close>) or
  one of: a plain message (\<^verbatim>\<open>fmt.Errorf\<close> without \<^verbatim>\<open>%w\<close>), a message wrapping another
  error (\<^verbatim>\<open>fmt.Errorf("...: %w", err)\<close>, always with the verb last in this repository), the
  sentinel \<^verbatim>\<open>io.EOF\<close>, or the error of a finished context.
\<close>

datatype error =
    ErrorString string
  | WrapError string "error option"
  | io_EOF
  | context_Canceled
  | context_DeadlineExceeded

fun Error :: "error \<Rightarrow> string" where
  "Error (ErrorString s) = s"
| "Error (WrapError p None) = p @ ''%!w(<nil>)''"
| "Error (WrapError p (Some e)) = p @ Error e"
| "Error io_EOF = ''EOF''"
| "Error context_Canceled = ''context canceled''"
| "Error context_DeadlineExceeded = ''context deadline exceeded''"


text \<open>\<^verbatim>\<open>strings.HasSuffix\<close> and \<^verbatim>\<open>strings.Contains\<close> on byte strings.\<close>

definition HasSuffix :: "string \<Rightarrow> string \<Rightarrow> bool" where
  "HasSuffix s suf = suffix suf s"

definition Contains :: "string \<Rightarrow> string \<Rightarrow> bool" where
  "Contains s sub = sublist sub s"

text \<open>The verb \<^verbatim>\<open>%d\<close> of \<^verbatim>\<open>fmt\<close>: decimal digits, most significant first, a minus sign
  for a negative number.\<close>

definition digit_char :: "nat \<Rightarrow> char" where
  "digit_char n = ''0123456789'' ! n"

function string_of_nat :: "nat \<Rightarrow> string" where
  "string_of_nat n =
     (if n < 10 then [digit_char n]
      else string_of_nat (n div 10) @ [digit_char (n mod 10)])"
  by pat_completeness auto
termination
  by (relation "measure id") auto

declare string_of_nat.simps [simp del]

definition show_int :: "int \<Rightarrow> string" where
  "show_int i = (if i < 0 then CHR ''-'' # string_of_nat (nat (- i)) else string_of_nat (nat i))"

section \<open>Retry helper\<close>









section \<open>DAP messages\<close>

text \<open>
  The message types of \<^verbatim>\<open>github.com/google/go-dap\<close> that the repository builds or
  inspects. \<^verbatim>\<open>dap.Request\<close> with its embedded \<^verbatim>\<open>dap.ProtocolMessage\<close> is one record; an
  unset field is Go's zero value. A response carries its body as an opaque string, except
  \<^verbatim>\<open>dap.ErrorResponse\<close>, of which the code reads \<^verbatim>\<open>Body.Error.Format\<close> and
  \<^verbatim>\<open>Body.Error.Id\<close>. \<open>OtherResponse\<close> and \<open>OtherEvent\<close> stand for every further response
  or event type of the library, with the type name that \<^verbatim>\<open>%T\<close> prints.
\<close>

record dap_Request =
  Seq :: int
  Type :: string
  Command :: string

record BreakpointLocation =
  File :: string
  Line :: int
  Column :: int
  Condition :: string
  HitCondition :: string
  LogMessage :: string

record FunctionBreakpoint =
  Name :: string
  FnCondition :: string
  FnHitCondition :: string

record dap_SourceBreakpoint =
  dap_Line :: int
  dap_Column :: int
  dap_Condition :: string
  dap_HitCondition :: string
  dap_LogMessage :: string

record dap_FunctionBreakpoint =
  dap_Name :: string
  dap_FnCondition :: string
  dap_FnHitCondition :: string

record dap_SetBreakpointsArguments =
  Source_Path :: string
  Breakpoints :: "dap_SourceBreakpoint list"

record dap_InitializeRequestArguments =
  ClientID :: string
  AdapterID :: string
  LinesStartAt1 :: bool
  ColumnsStartAt1 :: bool

datatype json = JString string | JBool bool | JStrings "string list"

datatype dap_request =
    InitializeRequest dap_Request dap_InitializeRequestArguments
  | LaunchRequest dap_Request "string \<rightharpoonup> json"
  | SetBreakpointsRequest dap_Request dap_SetBreakpointsArguments
  | SetFunctionBreakpointsRequest dap_Request "dap_FunctionBreakpoint list"
  | ContinueRequest dap_Request int
  | NextRequest dap_Request int
  | StepInRequest dap_Request int
  | StepOutRequest dap_Request int
  | PauseRequest dap_Request int
  | OtherRequest string

datatype dap_response =
    InitializeResponse string
  | LaunchResponse string
  | SetBreakpointsResponse string
  | SetFunctionBreakpointsResponse string
  | ContinueResponse string
  | NextResponse string
  | StepInResponse string
  | StepOutResponse string
  | PauseResponse string
  | ErrorResponse string int
  | OtherResponse string string

datatype dap_event =
    OutputEvent string
  | StoppedEvent int string
  | TerminatedEvent
  | ExitedEvent
  | OtherEvent string

datatype dap_message =
    RequestMsg dap_request
  | ResponseMsg dap_response
  | EventMsg dap_event

text \<open>The type name that \<^verbatim>\<open>%T\<close> prints for a message.\<close>

fun go_type :: "dap_message \<Rightarrow> string" where
  "go_type (RequestMsg (InitializeRequest _ _)) = ''*dap.InitializeRequest''"
| "go_type (RequestMsg (LaunchRequest _ _)) = ''*dap.LaunchRequest''"
| "go_type (RequestMsg (SetBreakpointsRequest _ _)) = ''*dap.SetBreakpointsRequest''"
| "go_type (RequestMsg (SetFunctionBreakpointsRequest _ _)) =
     ''*dap.SetFunctionBreakpointsRequest''"
| "go_type (RequestMsg (ContinueRequest _ _)) = ''*dap.ContinueRequest''"
| "go_type (RequestMsg (NextRequest _ _)) = ''*dap.NextRequest''"
| "go_type (RequestMsg (StepInRequest _ _)) = ''*dap.StepInRequest''"
| "go_type (RequestMsg (StepOutRequest _ _)) = ''*dap.StepOutRequest''"
| "go_type (RequestMsg (PauseRequest _ _)) = ''*dap.PauseRequest''"
| "go_type (RequestMsg (OtherRequest t)) = t"
| "go_type (ResponseMsg (InitializeResponse _)) = ''*dap.InitializeResponse''"
| "go_type (ResponseMsg (LaunchResponse _)) = ''*dap.LaunchResponse''"
| "go_type (ResponseMsg (SetBreakpointsResponse _)) = ''*dap.SetBreakpointsResponse''"
| "go_type (ResponseMsg (SetFunctionBreakpointsResponse _)) =
     ''*dap.SetFunctionBreakpointsResponse''"
| "go_type (ResponseMsg (ContinueResponse _)) = ''*dap.ContinueResponse''"
| "go_type (ResponseMsg (NextResponse _)) = ''*dap.NextResponse''"
| "go_type (ResponseMsg (StepInResponse _)) = ''*dap.StepInResponse''"
| "go_type (ResponseMsg (StepOutResponse _)) = ''*dap.StepOutResponse''"
| "go_type (ResponseMsg (PauseResponse _)) = ''*dap.PauseResponse''"
| "go_type (ResponseMsg (ErrorResponse _ _)) = ''*dap.ErrorResponse''"
| "go_type (ResponseMsg (OtherResponse t _)) = t"
| "go_type (EventMsg (OutputEvent _)) = ''*dap.OutputEvent''"
| "go_type (EventMsg (StoppedEvent _ _)) = ''*dap.StoppedEvent''"
| "go_type (EventMsg TerminatedEvent) = ''*dap.TerminatedEvent''"
| "go_type (EventMsg ExitedEvent) = ''*dap.ExitedEvent''"
| "go_type (EventMsg (OtherEvent t)) = t"

text \<open>\<^verbatim>\<open>DAPRequest\<close> and \<^verbatim>\<open>DAPResponse\<close>, the actor messages: each wraps a \<^verbatim>\<open>dap.Message\<close>.\<close>

datatype DAPRequest = DAPRequest (Request: dap_message)

datatype DAPResponse = DAPResponse (Response: dap_message)

section \<open>Session: read loop and request handler\<close>

text \<open>
  One iteration of \<^verbatim>\<open>readLoop\<close> as the surroundings decide it: whether \<^verbatim>\<open>quit\<close> is
  closed at the non-blocking check that opens the iteration, what
  \<^verbatim>\<open>dap.ReadProtocolMessage\<close> returns, whether \<^verbatim>\<open>quit\<close> wins the select of the channel
  send, and whether the \<^verbatim>\<open>responses\<close> or \<^verbatim>\<open>events\<close> channel (buffer of one) ever has room
  for the send. The \<^verbatim>\<open>errors\<close> channel always has room: its buffer of one is written at
  most once, by the iteration that then returns.
\<close>

datatype decode_result = Decoded dap_message | DecodeFailed error

record read_step =
  quit_at_check :: bool
  decoded :: decode_result
  quit_wins_send :: bool
  channel_has_room :: bool

datatype chan_push =
    ToResponses dap_message
  | ToEvents dap_message
  | ToErrors error

datatype loop_status = Returned | Blocked

fun push :: "chan_push \<Rightarrow> chan_push list \<times> loop_status \<Rightarrow> chan_push list \<times> loop_status" where
  "push p (ps, st) = (p # ps, st)"

text \<open>
  \<^verbatim>\<open>readLoop\<close> over the iterations the surroundings provide: the values sent on the three
  channels, in order, and whether the goroutine has returned or is still blocked (in the
  next read when the list is used up, or in a send that never gets room).
\<close>

fun readLoop :: "read_step list \<Rightarrow> chan_push list \<times> loop_status" where
  "readLoop [] = ([], Blocked)"
| "readLoop (st # rest) =
     (if quit_at_check st then ([], Returned)
      else
        (case decoded st of
           DecodeFailed err \<Rightarrow>
             if err \<noteq> io_EOF then
               (if quit_wins_send st then ([], Returned)
                else ([ToErrors (WrapError ''error reading DAP message: '' (Some err))],
                      Returned))
             else ([], Returned)
         | Decoded msg \<Rightarrow>
             (case msg of
                ResponseMsg m \<Rightarrow>
                  if quit_wins_send st then ([], Returned)
                  else if channel_has_room st then push (ToResponses msg) (readLoop rest)
                  else ([], Blocked)
              | EventMsg m \<Rightarrow>
                  if quit_wins_send st then ([], Returned)
                  else if channel_has_room st then push (ToEvents msg) (readLoop rest)
                  else ([], Blocked)
              | RequestMsg m \<Rightarrow> readLoop rest)))"

text \<open>
  What a select of \<^verbatim>\<open>Receive\<close> takes: a value from one of the three channels, or the
  context's \<^verbatim>\<open>Done\<close> (with the \<^verbatim>\<open>ctx.Err()\<close> read afterwards). A run of \<^verbatim>\<open>Receive\<close> is
  driven by the list of these in the order the selects take them; when the list is used
  up the select blocks, which is the result \<open>None\<close>.
\<close>

datatype select_case =
    FromResponses dap_message
  | FromEvents dap_message
  | FromErrors error
  | CtxDone error

fun taken_in_order :: "chan_push \<Rightarrow> select_case" where
  "taken_in_order (ToResponses m) = FromResponses m"
| "taken_in_order (ToEvents m) = FromEvents m"
| "taken_in_order (ToErrors e) = FromErrors e"

text \<open>The wait loop of \<^verbatim>\<open>Session.Receive\<close> in package \<^verbatim>\<open>debugger\<close>. Every branch of the
  type switch on an event continues the loop; the log lines are not modelled.\<close>

fun wait_for_response :: "select_case list \<Rightarrow> (error + DAPResponse) option" where
  "wait_for_response [] = None"
| "wait_for_response (FromResponses resp # rest) = Some (Inr (DAPResponse resp))"
| "wait_for_response (FromEvents event # rest) =
     (case event of
        EventMsg (OutputEvent out) \<Rightarrow> wait_for_response rest
      | EventMsg (StoppedEvent tid reason) \<Rightarrow> wait_for_response rest
      | EventMsg TerminatedEvent \<Rightarrow> wait_for_response rest
      | EventMsg ExitedEvent \<Rightarrow> wait_for_response rest
      | _ \<Rightarrow> wait_for_response rest)"
| "wait_for_response (FromErrors err # rest) = Some (Inl err)"
| "wait_for_response (CtxDone err # rest) = Some (Inl err)"

text \<open>\<^verbatim>\<open>Session.Receive\<close> of package \<^verbatim>\<open>debugger\<close>: \<open>written\<close> is what
  \<^verbatim>\<open>dap.WriteProtocolMessage\<close> returns for the request.\<close>

definition Receive ::
  "error option \<Rightarrow> DAPRequest \<Rightarrow> select_case list \<Rightarrow> (error + DAPResponse) option" where
  "Receive written msg taken =
     (case written of
        Some err \<Rightarrow> Some (Inl (WrapError ''error writing DAP message: '' (Some err)))
      | None \<Rightarrow> wait_for_response taken)"

text \<open>\<^verbatim>\<open>Session.Receive\<close> of the root package \<^verbatim>\<open>mcpdebug\<close>: one select, no loop.\<close>

definition Receive_mcpdebug ::
  "error option \<Rightarrow> DAPRequest \<Rightarrow> select_case list \<Rightarrow> (error + DAPResponse) option" where
  "Receive_mcpdebug written msg taken =
     (case written of
        Some err \<Rightarrow> Some (Inl (WrapError ''error writing DAP message: '' (Some err)))
      | None \<Rightarrow>
          (case taken of
             [] \<Rightarrow> None
           | FromResponses resp # rest \<Rightarrow> Some (Inr (DAPResponse resp))
           | FromEvents event # rest \<Rightarrow> Some (Inr (DAPResponse event))
           | FromErrors err # rest \<Rightarrow> Some (Inl err)
           | CtxDone err # rest \<Rightarrow> Some (Inl err)))"

section \<open>Typed operation helpers\<close>

text \<open>
  A helper receives an \<^verbatim>\<open>actor.ActorRef\<close> and calls \<^verbatim>\<open>Ask\<close> and \<^verbatim>\<open>Await\<close> on it with a
  background context. The actor behind the reference is modelled by its behaviour: a
  function from the request and the actor's state to the unpacked result and the new
  state. A helper that never calls the behaviour leaves the state as it is.
\<close>

type_synonym 's session = "DAPRequest \<Rightarrow> 's \<Rightarrow> (error + DAPResponse) \<times> 's"

definition unexpected_response_type :: "dap_message \<Rightarrow> error" where
  "unexpected_response_type m = ErrorString (''unexpected response type: '' @ go_type m)"

definition request_header :: "int \<Rightarrow> string \<Rightarrow> dap_Request" where
  "request_header seq command = \<lparr>Seq = seq, Type = ''request'', Command = command\<rparr>"

text \<open>\<^verbatim>\<open>InitializeSession\<close> (both bodies under \<^verbatim>\<open>src\<close> are the same).\<close>

definition InitializeSession ::
  "'s session \<Rightarrow> string \<Rightarrow> 's \<Rightarrow> (error + dap_response) \<times> 's" where
  "InitializeSession session clientID s =
     (let req = InitializeRequest (request_header 1 ''initialize'')
                  \<lparr>ClientID = clientID, AdapterID = ''go'', LinesStartAt1 = True,
                   ColumnsStartAt1 = True\<rparr>
      in case session (DAPRequest (RequestMsg req)) s of
           (Inl err, s') \<Rightarrow> (Inl err, s')
         | (Inr result, s') \<Rightarrow>
             (case Response result of
                ResponseMsg (InitializeResponse b) \<Rightarrow> (Inr (InitializeResponse b), s')
              | m \<Rightarrow> (Inl (unexpected_response_type m), s')))"

text \<open>\<^verbatim>\<open>Continue\<close>: the one step control that looks for a \<^verbatim>\<open>dap.ErrorResponse\<close>.\<close>

definition Continue :: "'s session \<Rightarrow> int \<Rightarrow> 's \<Rightarrow> (error + dap_response) \<times> 's" where
  "Continue session threadID s =
     (let req = ContinueRequest (request_header 0 ''continue'') threadID
      in case session (DAPRequest (RequestMsg req)) s of
           (Inl err, s') \<Rightarrow> (Inl err, s')
         | (Inr result, s') \<Rightarrow>
             (case Response result of
                ResponseMsg (ContinueResponse b) \<Rightarrow> (Inr (ContinueResponse b), s')
              | ResponseMsg (ErrorResponse format ident) \<Rightarrow>
                  (Inl (ErrorString (''continue failed: '' @ format @ '' (id: '' @
                                     show_int ident @ '')'')), s')
              | m \<Rightarrow> (Inl (unexpected_response_type m), s')))"

definition Next :: "'s session \<Rightarrow> int \<Rightarrow> 's \<Rightarrow> (error + dap_response) \<times> 's" where
  "Next session threadID s =
     (let req = NextRequest (request_header 0 ''next'') threadID
      in case session (DAPRequest (RequestMsg req)) s of
           (Inl err, s') \<Rightarrow> (Inl err, s')
         | (Inr result, s') \<Rightarrow>
             (case Response result of
                ResponseMsg (NextResponse b) \<Rightarrow> (Inr (NextResponse b), s')
              | m \<Rightarrow> (Inl (unexpected_response_type m), s')))"

definition StepIn :: "'s session \<Rightarrow> int \<Rightarrow> 's \<Rightarrow> (error + dap_response) \<times> 's" where
  "StepIn session threadID s =
     (let req = StepInRequest (request_header 0 ''stepIn'') threadID
      in case session (DAPRequest (RequestMsg req)) s of
           (Inl err, s') \<Rightarrow> (Inl err, s')
         | (Inr result, s') \<Rightarrow>
             (case Response result of
                ResponseMsg (StepInResponse b) \<Rightarrow> (Inr (StepInResponse b), s')
              | m \<Rightarrow> (Inl (unexpected_response_type m), s')))"

definition StepOut :: "'s session \<Rightarrow> int \<Rightarrow> 's \<Rightarrow> (error + dap_response) \<times> 's" where
  "StepOut session threadID s =
     (let req = StepOutRequest (request_header 0 ''stepOut'') threadID
      in case session (DAPRequest (RequestMsg req)) s of
           (Inl err, s') \<Rightarrow> (Inl err, s')
         | (Inr result, s') \<Rightarrow>
             (case Response result of
                ResponseMsg (StepOutResponse b) \<Rightarrow> (Inr (StepOutResponse b), s')
              | m \<Rightarrow> (Inl (unexpected_response_type m), s')))"

definition Pause :: "'s session \<Rightarrow> int \<Rightarrow> 's \<Rightarrow> (error + dap_response) \<times> 's" where
  "Pause session threadID s =
     (let req = PauseRequest (request_header 0 ''pause'') threadID
      in case session (DAPRequest (RequestMsg req)) s of
           (Inl err, s') \<Rightarrow> (Inl err, s')
         | (Inr result, s') \<Rightarrow>
             (case Response result of
                ResponseMsg (PauseResponse b) \<Rightarrow> (Inr (PauseResponse b), s')
              | m \<Rightarrow> (Inl (unexpected_response_type m), s')))"

subsection \<open>Breakpoints\<close>

text \<open>The loop of \<^verbatim>\<open>SetBreakpoints\<close> over \<^verbatim>\<open>breakpoints[1:]\<close>: true when it finds a
  location whose file differs from \<open>sourcePath\<close>.\<close>

fun other_file :: "string \<Rightarrow> BreakpointLocation list \<Rightarrow> bool" where
  "other_file sourcePath [] = False"
| "other_file sourcePath (bp # rest) =
     (if File bp \<noteq> sourcePath then True else other_file sourcePath rest)"

definition to_SourceBreakpoint :: "BreakpointLocation \<Rightarrow> dap_SourceBreakpoint" where
  "to_SourceBreakpoint bp =
     \<lparr>dap_Line = Line bp, dap_Column = Column bp, dap_Condition = Condition bp,
      dap_HitCondition = HitCondition bp, dap_LogMessage = LogMessage bp\<rparr>"

definition SetBreakpoints ::
  "'s session \<Rightarrow> BreakpointLocation list \<Rightarrow> 's \<Rightarrow> (error + dap_response) \<times> 's" where
  "SetBreakpoints session breakpoints s =
     (case breakpoints of
        [] \<Rightarrow> (Inl (ErrorString ''no breakpoints provided''), s)
      | first # others \<Rightarrow>
          (let sourcePath = File first
           in if other_file sourcePath others then
                (Inl (ErrorString ''all breakpoints must be for the same file''), s)
              else
                (let sourceBreakpoints = map to_SourceBreakpoint breakpoints;
                     req = SetBreakpointsRequest (request_header 0 ''setBreakpoints'')
                             \<lparr>Source_Path = sourcePath, Breakpoints = sourceBreakpoints\<rparr>
                 in case session (DAPRequest (RequestMsg req)) s of
                      (Inl err, s') \<Rightarrow> (Inl err, s')
                    | (Inr result, s') \<Rightarrow>
                        (case Response result of
                           ResponseMsg (SetBreakpointsResponse b) \<Rightarrow>
                             (Inr (SetBreakpointsResponse b), s')
                         | m \<Rightarrow> (Inl (unexpected_response_type m), s')))))"

definition to_dap_FunctionBreakpoint :: "FunctionBreakpoint \<Rightarrow> dap_FunctionBreakpoint" where
  "to_dap_FunctionBreakpoint bp =
     \<lparr>dap_Name = Name bp, dap_FnCondition = FnCondition bp,
      dap_FnHitCondition = FnHitCondition bp\<rparr>"

definition SetFunctionBreakpoints ::
  "'s session \<Rightarrow> FunctionBreakpoint list \<Rightarrow> 's \<Rightarrow> (error + dap_response) \<times> 's" where
  "SetFunctionBreakpoints session functionBreakpoints s =
     (let dapFunctionBreakpoints = map to_dap_FunctionBreakpoint functionBreakpoints;
          req = SetFunctionBreakpointsRequest (request_header 0 ''setFunctionBreakpoints'')
                  dapFunctionBreakpoints
      in case session (DAPRequest (RequestMsg req)) s of
           (Inl err, s') \<Rightarrow> (Inl err, s')
         | (Inr result, s') \<Rightarrow>
             (case Response result of
                ResponseMsg (SetFunctionBreakpointsResponse b) \<Rightarrow>
                  (Inr (SetFunctionBreakpointsResponse b), s')
              | m \<Rightarrow> (Inl (unexpected_response_type m), s')))"

text \<open>The convenience wrappers: the fields they do not set are Go's zero values.\<close>

definition SetSourceBreakpoints ::
  "'s session \<Rightarrow> string \<Rightarrow> int list \<Rightarrow> 's \<Rightarrow> (error + dap_response) \<times> 's" where
  "SetSourceBreakpoints session sourcePath lines s =
     SetBreakpoints session
       (map (\<lambda>line. \<lparr>File = sourcePath, Line = line, Column = 0, Condition = [],
                     HitCondition = [], LogMessage = []\<rparr>) lines) s"

definition SetSimpleFunctionBreakpoints ::
  "'s session \<Rightarrow> string list \<Rightarrow> 's \<Rightarrow> (error + dap_response) \<times> 's" where
  "SetSimpleFunctionBreakpoints session functionNames s =
     SetFunctionBreakpoints session
       (map (\<lambda>name. \<lparr>Name = name, FnCondition = [], FnHitCondition = []\<rparr>) functionNames) s"

text \<open>A session behaviour that records the requests it is handed, as the tests'
  \<^verbatim>\<open>MockSession\<close> does, in front of any behaviour.\<close>

definition recording :: "'s session \<Rightarrow> (dap_message list \<times> 's) session" where
  "recording session msg st =
     (case st of (requests, s) \<Rightarrow>
        (case session msg s of (result, s') \<Rightarrow> (result, (requests @ [Request msg], s'))))"

subsection \<open>Launch\<close>

record LaunchConfig =
  cfg_Name :: string
  Program :: string
  Args :: "string list"
  Env :: "string list"
  WorkingDir :: string
  StopOnEntry :: bool
  BuildFlags :: "string list"

text \<open>
  The optional entries of the \<^verbatim>\<open>launchArgs\<close> map, shared by both bodies of
  \<^verbatim>\<open>LaunchProgram\<close>. The map is handed on as the request's arguments: \<^verbatim>\<open>json.Marshal\<close> of a
  map from strings to strings, booleans and string slices does not fail, so the branch
  that returns the marshalling error is never taken.
\<close>

definition add_optional :: "LaunchConfig \<Rightarrow> (string \<rightharpoonup> json) \<Rightarrow> (string \<rightharpoonup> json)" where
  "add_optional config launchArgs =
     (let a1 = (if length (Args config) > 0 then launchArgs(''args'' \<mapsto> JStrings (Args config))
                else launchArgs);
          a2 = (if length (Env config) > 0 then a1(''env'' \<mapsto> JStrings (Env config)) else a1);
          a3 = (if WorkingDir config \<noteq> [] then a2(''cwd'' \<mapsto> JString (WorkingDir config))
                else a2)
      in if StopOnEntry config then a3(''stopOnEntry'' \<mapsto> JBool True) else a3)"

definition add_buildFlags :: "string list \<Rightarrow> (string \<rightharpoonup> json) \<Rightarrow> (string \<rightharpoonup> json)" where
  "add_buildFlags buildFlags launchArgs =
     (if length buildFlags > 0 then launchArgs(''buildFlags'' \<mapsto> JStrings buildFlags)
      else launchArgs)"

text \<open>The body of \<^verbatim>\<open>LaunchProgram\<close> in \<^verbatim>\<open>src/debugger/dap_api.go\<close>: the mode is the
  literal \<^verbatim>\<open>"debug"\<close> and the build flags are the caller's.\<close>

definition launch_arguments_dap_api :: "LaunchConfig \<Rightarrow> (string \<rightharpoonup> json)" where
  "launch_arguments_dap_api config =
     add_buildFlags (BuildFlags config)
       (add_optional config
          [''name'' \<mapsto> JString (cfg_Name config), ''type'' \<mapsto> JString ''go'',
           ''request'' \<mapsto> JString ''launch'', ''mode'' \<mapsto> JString ''debug'',
           ''program'' \<mapsto> JString (Program config)])"

definition LaunchProgram_dap_api ::
  "'s session \<Rightarrow> LaunchConfig \<Rightarrow> 's \<Rightarrow> (error + dap_response) \<times> 's" where
  "LaunchProgram_dap_api session config s =
     (let req = LaunchRequest (request_header 2 ''launch'') (launch_arguments_dap_api config)
      in case session (DAPRequest (RequestMsg req)) s of
           (Inl err, s') \<Rightarrow> (Inl err, s')
         | (Inr result, s') \<Rightarrow>
             (case Response result of
                ResponseMsg (LaunchResponse b) \<Rightarrow> (Inr (LaunchResponse b), s')
              | m \<Rightarrow> (Inl (unexpected_response_type m), s')))"

text \<open>
  The other body of \<^verbatim>\<open>LaunchProgram\<close> under \<^verbatim>\<open>src\<close> (package \<^verbatim>\<open>debugger\<close>, the file that
  follows \<^verbatim>\<open>debugger/dap_execution_test.go\<close>), which derives the mode. \<open>stat\<close> is
  \<^verbatim>\<open>os.Stat\<close> followed by \<^verbatim>\<open>Mode()\<close>: the file mode bits (a \<^verbatim>\<open>uint32\<close>) when the call
  succeeds, \<open>None\<close> when it returns an error.
\<close>

definition first_arg_has_test_flag :: "string list \<Rightarrow> bool" where
  "first_arg_has_test_flag args =
     (case args of [] \<Rightarrow> False | a # rest \<Rightarrow> Contains a ''-test.'')"

definition launch_mode :: "(string \<Rightarrow> 32 word option) \<Rightarrow> LaunchConfig \<Rightarrow> string" where
  "launch_mode stat config =
     (let isTest = (if HasSuffix (Program config) ''_test.go'' then True
                    else if HasSuffix (Program config) ''.test'' then True
                    else first_arg_has_test_flag (Args config))
      in if (if HasSuffix (Program config) ''.test'' then True
             else Contains (Program config) ''__debug_bin'') then ''exec''
         else if (if isTest then True else HasSuffix (Program config) ''_test.go'') then ''test''
         else if \<not> HasSuffix (Program config) ''.go'' then
           (case stat (Program config) of
              Some fileMode \<Rightarrow> if fileMode AND 0x49 \<noteq> 0 then ''exec'' else ''debug''
            | None \<Rightarrow> ''debug'')
         else ''debug'')"

fun hasDebugFlags :: "string list \<Rightarrow> bool" where
  "hasDebugFlags [] = False"
| "hasDebugFlags (flag # rest) =
     (if Contains flag ''-gcflags'' then True
      else if Contains flag ''-N -l'' then True
      else hasDebugFlags rest)"

definition launch_buildFlags :: "string \<Rightarrow> string list \<Rightarrow> string list" where
  "launch_buildFlags mode buildFlags =
     (if mode \<noteq> ''exec'' then
        (if \<not> hasDebugFlags buildFlags then [''-gcflags'', ''all=-N -l''] @ buildFlags
         else buildFlags)
      else buildFlags)"

definition launch_arguments :: "(string \<Rightarrow> 32 word option) \<Rightarrow> LaunchConfig \<Rightarrow> (string \<rightharpoonup> json)" where
  "launch_arguments stat config =
     (let mode = launch_mode stat config
      in add_buildFlags (launch_buildFlags mode (BuildFlags config))
           (add_optional config
              [''name'' \<mapsto> JString (cfg_Name config), ''type'' \<mapsto> JString ''go'',
               ''request'' \<mapsto> JString ''launch'', ''mode'' \<mapsto> JString mode,
               ''program'' \<mapsto> JString (Program config)]))"

definition LaunchProgram ::
  "(string \<Rightarrow> 32 word option) \<Rightarrow> 's session \<Rightarrow> LaunchConfig \<Rightarrow> 's
     \<Rightarrow> (error + dap_response) \<times> 's" where
  "LaunchProgram stat session config s =
     (let req = LaunchRequest (request_header 2 ''launch'') (launch_arguments stat config)
      in case session (DAPRequest (RequestMsg req)) s of
           (Inl err, s') \<Rightarrow> (Inl err, s')
         | (Inr result, s') \<Rightarrow>
             (case Response result of
                ResponseMsg (LaunchResponse b) \<Rightarrow> (Inr (LaunchResponse b), s')
              | ResponseMsg (ErrorResponse format ident) \<Rightarrow>
                  (Inl (ErrorString (''launch failed: '' @ format @ '' (id: '' @
                                     show_int ident @ '')'')), s')
              | m \<Rightarrow> (Inl (unexpected_response_type m), s')))"

section \<open>Debugger factory\<close>

text \<open>
  The \<^verbatim>\<open>debugger\<close> actor of the root package. \<^verbatim>\<open>nextSessionID\<close> is a Go \<^verbatim>\<open>int\<close> (64 bits):
  \<open>incr\<close> is \<^verbatim>\<open>++\<close> with its wrap-around. The actor system is the list of registrations
  (service key name and actor) in the order they were made, or \<open>None\<close> for the nil
  pointer that \<^verbatim>\<open>NewDebugger\<close> leaves in the field. \<open>'a\<close> is the type of a session actor.
  A command is one of the three command types or the nil interface value.
\<close>

record 'a debugger =
  nextSessionID :: int
  system :: "(string \<times> 'a) list option"

datatype DebuggerCommand = StartDebuggerCmd | StopDebuggerCmd | CreateSessionCmd | nil_Cmd

datatype 'a debugger_result =
    Ok 'a
  | Err error
  | Panic

definition incr :: "int \<Rightarrow> int" where
  "incr n = (if n = 2 ^ 63 - 1 then - (2 ^ 63) else n + 1)"

definition RegisterWithSystem :: "(string \<times> 'a) list \<Rightarrow> string \<Rightarrow> 'a \<Rightarrow> (string \<times> 'a) list" where
  "RegisterWithSystem sys key actor = sys @ [(key, actor)]"

definition FindInReceptionist :: "(string \<times> 'a) list \<Rightarrow> string \<Rightarrow> 'a list" where
  "FindInReceptionist sys key = map snd (filter (\<lambda>entry. fst entry = key) sys)"

text \<open>The branch that \<^verbatim>\<open>StartDebuggerCmd\<close> and \<^verbatim>\<open>CreateSessionCmd\<close> share word for word.
  \<open>new_session\<close> is what \<^verbatim>\<open>NewSession()\<close> returns when it is called.\<close>

definition create_session ::
  "'a debugger \<Rightarrow> error + 'a \<Rightarrow> 'a debugger_result \<times> 'a debugger" where
  "create_session d new_session =
     (case new_session of
        Inl err \<Rightarrow> (Err (WrapError ''could not create session: '' (Some err)), d)
      | Inr session \<Rightarrow>
          (let d1 = d\<lparr>nextSessionID := incr (nextSessionID d)\<rparr>;
               sessionID = ''session-'' @ show_int (nextSessionID d1)
           in case system d1 of
                None \<Rightarrow> (Panic, d1)
              | Some sys \<Rightarrow>
                  (let sys' = RegisterWithSystem sys sessionID session
                   in case FindInReceptionist sys' sessionID of
                        [] \<Rightarrow> (Panic, d1\<lparr>system := Some sys'\<rparr>)
                      | sessionRef # others \<Rightarrow> (Ok sessionRef, d1\<lparr>system := Some sys'\<rparr>))))"

definition debugger_Receive ::
  "'a debugger \<Rightarrow> DebuggerCommand \<Rightarrow> error + 'a \<Rightarrow> 'a debugger_result \<times> 'a debugger" where
  "debugger_Receive d cmd new_session =
     (case cmd of
        StartDebuggerCmd \<Rightarrow> create_session d new_session
      | CreateSessionCmd \<Rightarrow> create_session d new_session
      | StopDebuggerCmd \<Rightarrow>
          (Err (ErrorString ''unknown command type: *mcpdebug.StopDebuggerCmd''), d)
      | nil_Cmd \<Rightarrow> (Err (ErrorString ''unknown command type: <nil>''), d))"

text \<open>The actor handling a list of commands one after the other, each with the outcome
  of the \<^verbatim>\<open>NewSession()\<close> call it would make; a panic ends the run.\<close>

fun handle_all ::
  "'a debugger \<Rightarrow> (DebuggerCommand \<times> (error + 'a)) list \<Rightarrow> 'a debugger_result list \<times> 'a debugger"
  where
  "handle_all d [] = ([], d)"
| "handle_all d ((cmd, new_session) # rest) =
     (case debugger_Receive d cmd new_session of
        (Panic, d') \<Rightarrow> ([Panic], d')
      | (r, d') \<Rightarrow> (case handle_all d' rest of (rs, d'') \<Rightarrow> (r # rs, d'')))"

text \<open>The service key names registered in an actor system, in order.\<close>

definition registered_keys :: "'a debugger \<Rightarrow> string list" where
  "registered_keys d = (case system d of None \<Rightarrow> [] | Some sys \<Rightarrow> map fst sys)"

section \<open>Properties of the session actor\<close>

lemma wait_for_response_events:
  "wait_for_response (map FromEvents events @ rest) = wait_for_response rest"
  by (induction events) (auto split: dap_message.splits dap_event.splits)

lemma wait_for_response_source:
  "wait_for_response taken = Some (Inr result) \<Longrightarrow> FromResponses (Response result) \<in> set taken"
  by (induction taken rule: wait_for_response.induct)
     (auto split: dap_message.splits dap_event.splits)

lemma readLoop_responses:
  "ToResponses m \<in> set (fst (readLoop steps)) \<Longrightarrow> \<exists>r. m = ResponseMsg r"
proof (induction steps)
  case Nil
  then show ?case by simp
next
  case (Cons st rest)
  then show ?case
    by (cases "readLoop rest")
       (auto split: if_splits decode_result.splits dap_message.splits)
qed

lemma readLoop_errors:
  "ToErrors e \<in> set (fst (readLoop steps)) \<Longrightarrow>
     \<exists>st err. st \<in> set steps \<and> decoded st = DecodeFailed err \<and> err \<noteq> io_EOF
        \<and> e = WrapError ''error reading DAP message: '' (Some err)"
proof (induction steps)
  case Nil
  then show ?case by simp
next
  case (Cons st rest)
  then show ?case
    by (cases "readLoop rest")
       (auto split: if_splits decode_result.splits dap_message.splits)
qed

text \<open>
  C1. \<^verbatim>\<open>Session.Receive\<close> of package \<^verbatim>\<open>debugger\<close>, after a successful write: whatever
  messages the selects take from the events channel first (output, stopped, terminated,
  exited or any other), the call returns the first thing that is not an event: the
  message taken from the responses channel as its result, or the error taken from the
  errors channel, or the context's error. While only events arrive it does not return.
  And whenever the values it takes from the channels are values the read loop sent, a
  successful result is a response message, never an event.
\<close>

theorem Receive_absorbs_events:
  "Receive None msg (map FromEvents events @ FromResponses resp # rest)
     = Some (Inr (DAPResponse resp))
   \<and> Receive None msg (map FromEvents events @ FromErrors err # rest) = Some (Inl err)
   \<and> Receive None msg (map FromEvents events @ CtxDone err # rest) = Some (Inl err)
   \<and> Receive None msg (map FromEvents events) = None
   \<and> ((\<forall>c \<in> set taken. (\<exists>e. c = CtxDone e) \<or> c \<in> taken_in_order ` set (fst (readLoop steps)))
        \<longrightarrow> Receive written msg taken = Some (Inr result)
        \<longrightarrow> (\<exists>r. Response result = ResponseMsg r))"
proof -
  have never: "\<exists>r. Response result = ResponseMsg r"
    if fed: "\<forall>c \<in> set taken. (\<exists>e. c = CtxDone e)
                \<or> c \<in> taken_in_order ` set (fst (readLoop steps))"
      and ok: "Receive written msg taken = Some (Inr result)"
  proof -
    from ok have "wait_for_response taken = Some (Inr result)"
      by (auto simp: Receive_def split: option.splits)
    then have "FromResponses (Response result) \<in> set taken"
      by (rule wait_for_response_source)
    with fed obtain p where p: "p \<in> set (fst (readLoop steps))"
      and eq: "FromResponses (Response result) = taken_in_order p"
      by auto
    from eq have "p = ToResponses (Response result)" by (cases p) auto
    with p show ?thesis using readLoop_responses by blast
  qed
  show ?thesis
    using never
    by (simp add: Receive_def wait_for_response_events[where rest="[]", simplified]
          wait_for_response_events)
qed

theorem Receive_absorbs_events_witness:
  "Receive None (DAPRequest (RequestMsg (ContinueRequest (request_header 0 ''continue'') 1)))
     (map taken_in_order (fst (readLoop
        [\<lparr>quit_at_check = False, decoded = Decoded (EventMsg (OutputEvent ''hit'')),
          quit_wins_send = False, channel_has_room = True\<rparr>,
         \<lparr>quit_at_check = False, decoded = Decoded (EventMsg TerminatedEvent),
          quit_wins_send = False, channel_has_room = True\<rparr>,
         \<lparr>quit_at_check = False, decoded = Decoded (ResponseMsg (ContinueResponse ''{}'')),
          quit_wins_send = False, channel_has_room = True\<rparr>])))
     = Some (Inr (DAPResponse (ResponseMsg (ContinueResponse ''{}''))))
   \<and> (\<exists>r. Response (DAPResponse (ResponseMsg (ContinueResponse ''{}''))) = ResponseMsg r)"
proof -
  let ?steps = "[\<lparr>quit_at_check = False, decoded = Decoded (EventMsg (OutputEvent ''hit'')),
          quit_wins_send = False, channel_has_room = True\<rparr>,
         \<lparr>quit_at_check = False, decoded = Decoded (EventMsg TerminatedEvent),
          quit_wins_send = False, channel_has_room = True\<rparr>,
         \<lparr>quit_at_check = False, decoded = Decoded (ResponseMsg (ContinueResponse ''{}'')),
          quit_wins_send = False, channel_has_room = True\<rparr>]"
  let ?msg = "DAPRequest (RequestMsg (ContinueRequest (request_header 0 ''continue'') 1))"
  let ?taken = "map taken_in_order (fst (readLoop ?steps))"
  have taken: "?taken = map FromEvents [EventMsg (OutputEvent ''hit''), EventMsg TerminatedEvent]
                  @ FromResponses (ResponseMsg (ContinueResponse ''{}'')) # []"
    by simp
  have fed: "\<forall>c \<in> set ?taken. (\<exists>e. c = CtxDone e)
                \<or> c \<in> taken_in_order ` set (fst (readLoop ?steps))"
    by simp
  have ret: "Receive None ?msg ?taken
               = Some (Inr (DAPResponse (ResponseMsg (ContinueResponse ''{}''))))"
    unfolding taken
    using Receive_absorbs_events
      [of ?msg "[EventMsg (OutputEvent ''hit''), EventMsg TerminatedEvent]"
          "ResponseMsg (ContinueResponse ''{}'')" "[]"]
    by blast
  from Receive_absorbs_events
      [of ?msg "[]" "ResponseMsg (ContinueResponse ''{}'')" "[]" io_EOF ?taken ?steps None
          "DAPResponse (ResponseMsg (ContinueResponse ''{}''))"] fed ret
  have "\<exists>r. Response (DAPResponse (ResponseMsg (ContinueResponse ''{}''))) = ResponseMsg r"
    by blast
  with ret show ?thesis by blast
qed

lemma readLoop_forwarded:
  assumes "\<forall>p \<in> set pre. \<not> quit_at_check p
             \<and> (\<exists>m. decoded p = Decoded m
                    \<and> ((\<exists>r. m = RequestMsg r) \<or> (\<not> quit_wins_send p \<and> channel_has_room p)))"
  shows "readLoop (pre @ steps)
           = (concat (map (\<lambda>p. case decoded p of
                                  Decoded (ResponseMsg r) \<Rightarrow> [ToResponses (ResponseMsg r)]
                                | Decoded (EventMsg e) \<Rightarrow> [ToEvents (EventMsg e)]
                                | _ \<Rightarrow> []) pre)
                @ fst (readLoop steps),
              snd (readLoop steps))"
  using assms
proof (induction pre)
  case Nil
  then show ?case by simp
next
  case (Cons p pre)
  from Cons.prems obtain m where p: "\<not> quit_at_check p" "decoded p = Decoded m"
    "(\<exists>r. m = RequestMsg r) \<or> (\<not> quit_wins_send p \<and> channel_has_room p)"
    by auto
  from Cons.prems have rest: "\<forall>p \<in> set pre. \<not> quit_at_check p
             \<and> (\<exists>m. decoded p = Decoded m
                    \<and> ((\<exists>r. m = RequestMsg r) \<or> (\<not> quit_wins_send p \<and> channel_has_room p)))"
    by simp
  note IH = Cons.IH[OF rest]
  show ?case
  proof (cases m)
    case (RequestMsg r)
    with p IH show ?thesis by simp
  next
    case (ResponseMsg r)
    with p IH show ?thesis by simp
  next
    case (EventMsg e)
    with p IH show ?thesis by simp
  qed
qed

lemma readLoop_forwarded_events:
  assumes "\<forall>p \<in> set pre. \<not> quit_at_check p
             \<and> (\<exists>m. decoded p = Decoded m
                    \<and> ((\<exists>r. m = RequestMsg r) \<or> (\<not> quit_wins_send p \<and> channel_has_room p)))"
    and "\<forall>p \<in> set pre. \<forall>r. decoded p \<noteq> Decoded (ResponseMsg r)"
  shows "\<exists>events. map taken_in_order (fst (readLoop (pre @ steps)))
           = map FromEvents events @ map taken_in_order (fst (readLoop steps))"
  using assms
proof (induction pre)
  case Nil
  show ?case by (intro exI[of _ "[]"]) simp
next
  case (Cons p pre)
  from Cons.prems obtain m where p: "\<not> quit_at_check p" "decoded p = Decoded m"
    "(\<exists>r. m = RequestMsg r) \<or> (\<not> quit_wins_send p \<and> channel_has_room p)"
    "\<forall>r. m \<noteq> ResponseMsg r"
    by auto
  from Cons.prems have "\<forall>p \<in> set pre. \<not> quit_at_check p
             \<and> (\<exists>m. decoded p = Decoded m
                    \<and> ((\<exists>r. m = RequestMsg r) \<or> (\<not> quit_wins_send p \<and> channel_has_room p)))"
    and "\<forall>p \<in> set pre. \<forall>r. decoded p \<noteq> Decoded (ResponseMsg r)"
    by simp_all
  from Cons.IH[OF this] obtain events where
    IH: "map taken_in_order (fst (readLoop (pre @ steps)))
           = map FromEvents events @ map taken_in_order (fst (readLoop steps))"
    by blast
  show ?case
  proof (cases m)
    case (RequestMsg r)
    with p IH show ?thesis by (intro exI[of _ events]) simp
  next
    case (ResponseMsg r)
    with p show ?thesis by simp
  next
    case (EventMsg e)
    with p IH show ?thesis
      by (intro exI[of _ "EventMsg e # events"])
         (cases "readLoop (pre @ steps)", simp)
  qed
qed

text \<open>
  C7. \<^verbatim>\<open>readLoop\<close> in any iteration, after any number of iterations that decoded a message
  and went on (each past the quit check; a response or an event sent, with room on its
  channel and quit not winning the select; any other message dropped): what was sent so
  far is the responses and events in wire order, and none of it went to the errors channel.
  When the next decoding fails with \<^verbatim>\<open>io.EOF\<close> the loop returns having sent nothing more;
  when it fails with another error the loop sends that error, wrapped, on the errors
  channel unless quit wins the select, and returns. Nothing else ever reaches the errors
  channel. A call in flight that takes an error from the errors channel returns exactly
  that error (both versions of \<^verbatim>\<open>Receive\<close>); in particular, when only events were
  forwarded before the failure, the call returns the wrapped decode error.
\<close>

theorem readLoop_decode_failure:
  "((\<forall>p \<in> set pre. \<not> quit_at_check p
        \<and> (\<exists>m. decoded p = Decoded m
               \<and> ((\<exists>r. m = RequestMsg r) \<or> (\<not> quit_wins_send p \<and> channel_has_room p))))
      \<longrightarrow> readLoop pre
            = (concat (map (\<lambda>p. case decoded p of
                                   Decoded (ResponseMsg r) \<Rightarrow> [ToResponses (ResponseMsg r)]
                                 | Decoded (EventMsg e) \<Rightarrow> [ToEvents (EventMsg e)]
                                 | _ \<Rightarrow> []) pre), Blocked)
        \<and> (\<not> quit_at_check st \<longrightarrow> decoded st = DecodeFailed io_EOF \<longrightarrow>
              readLoop (pre @ st # rest) = (fst (readLoop pre), Returned))
        \<and> (\<not> quit_at_check st \<longrightarrow> decoded st = DecodeFailed err \<longrightarrow> err \<noteq> io_EOF \<longrightarrow>
              readLoop (pre @ st # rest) =
                (if quit_wins_send st then (fst (readLoop pre), Returned)
                 else (fst (readLoop pre)
                         @ [ToErrors (WrapError ''error reading DAP message: '' (Some err))],
                       Returned)))
        \<and> ((\<forall>p \<in> set pre. \<forall>r. decoded p \<noteq> Decoded (ResponseMsg r)) \<longrightarrow>
             \<not> quit_at_check st \<longrightarrow> decoded st = DecodeFailed err \<longrightarrow> err \<noteq> io_EOF \<longrightarrow>
             \<not> quit_wins_send st \<longrightarrow>
               Receive None msg (map taken_in_order (fst (readLoop (pre @ st # rest))))
                 = Some (Inl (WrapError ''error reading DAP message: '' (Some err)))))
   \<and> (ToErrors e \<in> set (fst (readLoop steps)) \<longrightarrow>
        (\<exists>st' err'. st' \<in> set steps \<and> decoded st' = DecodeFailed err' \<and> err' \<noteq> io_EOF
            \<and> e = WrapError ''error reading DAP message: '' (Some err')))
   \<and> Receive None msg (map FromEvents events @ FromErrors e # taken) = Some (Inl e)
   \<and> Receive_mcpdebug None msg (FromErrors e # taken) = Some (Inl e)"
proof -
  let ?forwarding = "\<forall>p \<in> set pre. \<not> quit_at_check p
        \<and> (\<exists>m. decoded p = Decoded m
               \<and> ((\<exists>r. m = RequestMsg r) \<or> (\<not> quit_wins_send p \<and> channel_has_room p)))"
  let ?sent = "concat (map (\<lambda>p. case decoded p of
                                   Decoded (ResponseMsg r) \<Rightarrow> [ToResponses (ResponseMsg r)]
                                 | Decoded (EventMsg e) \<Rightarrow> [ToEvents (EventMsg e)]
                                 | _ \<Rightarrow> []) pre)"
  have after: "readLoop (pre @ steps') = (?sent @ fst (readLoop steps'), snd (readLoop steps'))"
    if ?forwarding for steps'
    using readLoop_forwarded[OF that] .
  have a: "readLoop pre = (?sent, Blocked)" if ?forwarding
    using after[OF that, of "[]"] by simp
  have b: "readLoop (pre @ st # rest) = (fst (readLoop pre), Returned)"
    if ?forwarding "\<not> quit_at_check st" "decoded st = DecodeFailed io_EOF"
    using after[OF that(1), of "st # rest"] a[OF that(1)] that(2,3) by simp
  have c: "readLoop (pre @ st # rest) =
                (if quit_wins_send st then (fst (readLoop pre), Returned)
                 else (fst (readLoop pre)
                         @ [ToErrors (WrapError ''error reading DAP message: '' (Some err))],
                       Returned))"
    if ?forwarding "\<not> quit_at_check st" "decoded st = DecodeFailed err" "err \<noteq> io_EOF"
    using after[OF that(1), of "st # rest"] a[OF that(1)] that(2,3,4) by simp
  have d: "Receive None msg (map taken_in_order (fst (readLoop (pre @ st # rest))))
                 = Some (Inl (WrapError ''error reading DAP message: '' (Some err)))"
    if ?forwarding "\<forall>p \<in> set pre. \<forall>r. decoded p \<noteq> Decoded (ResponseMsg r)"
      "\<not> quit_at_check st" "decoded st = DecodeFailed err" "err \<noteq> io_EOF"
      "\<not> quit_wins_send st"
  proof -
    from readLoop_forwarded_events[OF that(1,2), of "st # rest"] obtain evs where
      "map taken_in_order (fst (readLoop (pre @ st # rest)))
           = map FromEvents evs @ map taken_in_order (fst (readLoop (st # rest)))"
      by blast
    moreover have "map taken_in_order (fst (readLoop (st # rest)))
        = [FromErrors (WrapError ''error reading DAP message: '' (Some err))]"
      using that(3-6) by simp
    ultimately show ?thesis
      by (simp add: Receive_def wait_for_response_events)
  qed
  have e: "ToErrors e \<in> set (fst (readLoop steps)) \<longrightarrow>
        (\<exists>st' err'. st' \<in> set steps \<and> decoded st' = DecodeFailed err' \<and> err' \<noteq> io_EOF
            \<and> e = WrapError ''error reading DAP message: '' (Some err'))"
    using readLoop_errors[of e steps] by blast
  have f: "Receive None msg (map FromEvents events @ FromErrors e # taken) = Some (Inl e)"
    by (simp add: Receive_def wait_for_response_events)
  have g: "Receive_mcpdebug None msg (FromErrors e # taken) = Some (Inl e)"
    by (simp add: Receive_mcpdebug_def)
  from a b c d e f g show ?thesis by blast
qed

theorem readLoop_decode_failure_witness:
  "readLoop
     ([\<lparr>quit_at_check = False, decoded = Decoded (EventMsg (OutputEvent ''hit'')),
        quit_wins_send = False, channel_has_room = True\<rparr>,
       \<lparr>quit_at_check = False, decoded = Decoded (ResponseMsg (NextResponse ''{}'')),
        quit_wins_send = False, channel_has_room = True\<rparr>]
      @ \<lparr>quit_at_check = False, decoded = DecodeFailed (ErrorString ''unexpected EOF''),
         quit_wins_send = False, channel_has_room = True\<rparr>
      # [\<lparr>quit_at_check = False, decoded = Decoded (EventMsg TerminatedEvent),
          quit_wins_send = False, channel_has_room = True\<rparr>])
     = ([ToEvents (EventMsg (OutputEvent ''hit'')), ToResponses (ResponseMsg (NextResponse ''{}'')),
         ToErrors (WrapError ''error reading DAP message: ''
                     (Some (ErrorString ''unexpected EOF'')))], Returned)
   \<and> readLoop
     ([\<lparr>quit_at_check = False, decoded = Decoded (EventMsg (OutputEvent ''hit'')),
        quit_wins_send = False, channel_has_room = True\<rparr>,
       \<lparr>quit_at_check = False, decoded = Decoded (ResponseMsg (NextResponse ''{}'')),
        quit_wins_send = False, channel_has_room = True\<rparr>]
      @ \<lparr>quit_at_check = False, decoded = DecodeFailed io_EOF,
         quit_wins_send = False, channel_has_room = True\<rparr>
      # [\<lparr>quit_at_check = False, decoded = Decoded (EventMsg TerminatedEvent),
          quit_wins_send = False, channel_has_room = True\<rparr>])
     = ([ToEvents (EventMsg (OutputEvent ''hit'')),
         ToResponses (ResponseMsg (NextResponse ''{}''))], Returned)
   \<and> Receive None (DAPRequest (RequestMsg (NextRequest (request_header 0 ''next'') 1)))
       (map taken_in_order (fst (readLoop
          ([\<lparr>quit_at_check = False, decoded = Decoded (EventMsg (OutputEvent ''hit'')),
             quit_wins_send = False, channel_has_room = True\<rparr>]
           @ \<lparr>quit_at_check = False, decoded = DecodeFailed (ErrorString ''unexpected EOF''),
              quit_wins_send = False, channel_has_room = True\<rparr>
           # []))))
     = Some (Inl (WrapError ''error reading DAP message: ''
                    (Some (ErrorString ''unexpected EOF''))))"
proof -
  let ?event = "\<lparr>quit_at_check = False, decoded = Decoded (EventMsg (OutputEvent ''hit'')),
        quit_wins_send = False, channel_has_room = True\<rparr>"
  let ?response = "\<lparr>quit_at_check = False, decoded = Decoded (ResponseMsg (NextResponse ''{}'')),
        quit_wins_send = False, channel_has_room = True\<rparr>"
  let ?broken = "\<lparr>quit_at_check = False, decoded = DecodeFailed (ErrorString ''unexpected EOF''),
         quit_wins_send = False, channel_has_room = True\<rparr>"
  let ?eof = "\<lparr>quit_at_check = False, decoded = DecodeFailed io_EOF,
         quit_wins_send = False, channel_has_room = True\<rparr>"
  let ?later = "[\<lparr>quit_at_check = False, decoded = Decoded (EventMsg TerminatedEvent),
          quit_wins_send = False, channel_has_room = True\<rparr>]"
  let ?msg = "DAPRequest (RequestMsg (NextRequest (request_header 0 ''next'') 1))"
  have two: "\<forall>p \<in> set [?event, ?response]. \<not> quit_at_check p
        \<and> (\<exists>m. decoded p = Decoded m
               \<and> ((\<exists>r. m = RequestMsg r) \<or> (\<not> quit_wins_send p \<and> channel_has_room p)))"
    by simp
  have one: "\<forall>p \<in> set [?event]. \<not> quit_at_check p
        \<and> (\<exists>m. decoded p = Decoded m
               \<and> ((\<exists>r. m = RequestMsg r) \<or> (\<not> quit_wins_send p \<and> channel_has_room p)))"
    by simp
  have no_response: "\<forall>p \<in> set [?event]. \<forall>r. decoded p \<noteq> Decoded (ResponseMsg r)"
    by simp
  have sent: "fst (readLoop [?event, ?response])
      = [ToEvents (EventMsg (OutputEvent ''hit'')), ToResponses (ResponseMsg (NextResponse ''{}''))]"
    by simp
  have q: "\<not> quit_at_check ?broken" "\<not> quit_at_check ?eof" by simp_all
  have dec: "decoded ?broken = DecodeFailed (ErrorString ''unexpected EOF'')"
    "decoded ?eof = DecodeFailed io_EOF" by simp_all
  have other: "ErrorString ''unexpected EOF'' \<noteq> io_EOF" by simp
  have wins: "\<not> quit_wins_send ?broken" by simp
  note broken = readLoop_decode_failure
    [of "[?event, ?response]" ?broken ?later "ErrorString ''unexpected EOF''",
     THEN conjunct1, THEN mp, OF two]
  note ended = readLoop_decode_failure
    [of "[?event, ?response]" ?eof ?later "ErrorString ''unexpected EOF''",
     THEN conjunct1, THEN mp, OF two]
  note call = readLoop_decode_failure
    [of "[?event]" ?broken "[]" "ErrorString ''unexpected EOF''" ?msg,
     THEN conjunct1, THEN mp, OF one]
  from broken[THEN conjunct2, THEN conjunct2, THEN conjunct1,
              THEN mp, OF q(1), THEN mp, OF dec(1), THEN mp, OF other]
  have a: "readLoop ([?event, ?response] @ ?broken # ?later)
     = ([ToEvents (EventMsg (OutputEvent ''hit'')), ToResponses (ResponseMsg (NextResponse ''{}'')),
         ToErrors (WrapError ''error reading DAP message: ''
                     (Some (ErrorString ''unexpected EOF'')))], Returned)"
    unfolding sent using wins by simp
  from ended[THEN conjunct2, THEN conjunct1, THEN mp, OF q(2), THEN mp, OF dec(2)]
  have b: "readLoop ([?event, ?response] @ ?eof # ?later)
     = ([ToEvents (EventMsg (OutputEvent ''hit'')),
         ToResponses (ResponseMsg (NextResponse ''{}''))], Returned)"
    unfolding sent .
  from call[THEN conjunct2, THEN conjunct2, THEN conjunct2,
            THEN mp, OF no_response, THEN mp, OF q(1), THEN mp, OF dec(1), THEN mp, OF other,
            THEN mp, OF wins]
  have c: "Receive None ?msg (map taken_in_order (fst (readLoop ([?event] @ ?broken # []))))
     = Some (Inl (WrapError ''error reading DAP message: ''
                    (Some (ErrorString ''unexpected EOF''))))" .
  from a b c show ?thesis by (intro conjI)
qed

text \<open>
  C9. \<^verbatim>\<open>Session.Receive\<close> of the root package \<^verbatim>\<open>mcpdebug\<close>, after a successful write:
  when its select takes a message from the events channel, the call returns that message
  wrapped as a successful \<^verbatim>\<open>DAPResponse\<close>; it does not wait for the response. On the same
  single event the \<^verbatim>\<open>Receive\<close> of package \<^verbatim>\<open>debugger\<close> keeps waiting.
\<close>

theorem Receive_mcpdebug_returns_event:
  "Receive_mcpdebug None msg (FromEvents event # rest) = Some (Inr (DAPResponse event))
   \<and> Receive None msg [FromEvents event] = None"
  by (simp add: Receive_mcpdebug_def Receive_def split: dap_message.splits dap_event.splits)

theorem Receive_mcpdebug_returns_event_witness:
  "Receive_mcpdebug None
     (DAPRequest (RequestMsg (ContinueRequest (request_header 0 ''continue'') 1)))
     [FromEvents (EventMsg (StoppedEvent 1 ''breakpoint'')),
      FromResponses (ResponseMsg (ContinueResponse ''{}''))]
     = Some (Inr (DAPResponse (EventMsg (StoppedEvent 1 ''breakpoint''))))"
  using Receive_mcpdebug_returns_event
    [of "DAPRequest (RequestMsg (ContinueRequest (request_header 0 ''continue'') 1))"
        "EventMsg (StoppedEvent 1 ''breakpoint'')"
        "[FromResponses (ResponseMsg (ContinueResponse ''{}''))]"]
  by blast

section \<open>Properties of the breakpoint helpers\<close>

lemma other_file_iff: "other_file p bps \<longleftrightarrow> (\<exists>bp \<in> set bps. File bp \<noteq> p)"
  by (induction bps) auto

text \<open>
  C4. \<^verbatim>\<open>SetBreakpoints\<close> with an empty list returns the error "no breakpoints provided",
  and with locations of more than one file the error "all breakpoints must be for the
  same file". In both cases the result is the same for every session behaviour and the
  session's state is the one it was called with: the behaviour is not invoked.
\<close>

theorem SetBreakpoints_rejects:
  "SetBreakpoints session [] s = (Inl (ErrorString ''no breakpoints provided''), s)
   \<and> Contains (Error (ErrorString ''no breakpoints provided'')) ''no breakpoints provided''
   \<and> ((\<exists>bp \<in> set bps. \<exists>bp' \<in> set bps. File bp \<noteq> File bp') \<longrightarrow>
        SetBreakpoints session bps s
          = (Inl (ErrorString ''all breakpoints must be for the same file''), s))
   \<and> Contains (Error (ErrorString ''all breakpoints must be for the same file''))
        ''all breakpoints must be for the same file''"
proof -
  have multi: "SetBreakpoints session bps s
          = (Inl (ErrorString ''all breakpoints must be for the same file''), s)"
    if "\<exists>bp \<in> set bps. \<exists>bp' \<in> set bps. File bp \<noteq> File bp'"
  proof (cases bps)
    case Nil
    with that show ?thesis by simp
  next
    case (Cons first others)
    have "\<exists>bp \<in> set others. File bp \<noteq> File first"
    proof (rule ccontr)
      assume "\<not> (\<exists>bp \<in> set others. File bp \<noteq> File first)"
      with Cons have "\<forall>bp \<in> set bps. File bp = File first" by simp
      with that show False by simp
    qed
    then have "other_file (File first) others"
      by (simp add: other_file_iff)
    with Cons show ?thesis
      by (simp add: SetBreakpoints_def)
  qed
  have "SetBreakpoints session [] s = (Inl (ErrorString ''no breakpoints provided''), s)"
    by (simp add: SetBreakpoints_def)
  with multi show ?thesis
    by (simp add: Contains_def)
qed

theorem SetBreakpoints_rejects_witness:
  "SetBreakpoints
     (\<lambda>msg n. (Inr (DAPResponse (ResponseMsg (SetBreakpointsResponse ''{}''))), Suc n))
     [\<lparr>File = ''/path/to/file1.go'', Line = 10, Column = 0, Condition = [],
       HitCondition = [], LogMessage = []\<rparr>,
      \<lparr>File = ''/path/to/file2.go'', Line = 20, Column = 0, Condition = [],
       HitCondition = [], LogMessage = []\<rparr>] (0::nat)
     = (Inl (ErrorString ''all breakpoints must be for the same file''), 0)"
proof -
  let ?bps = "[\<lparr>File = ''/path/to/file1.go'', Line = 10, Column = 0, Condition = [],
       HitCondition = [], LogMessage = []\<rparr>,
      \<lparr>File = ''/path/to/file2.go'', Line = 20, Column = 0, Condition = [],
       HitCondition = [], LogMessage = []\<rparr>]"
  have two_files: "\<exists>bp \<in> set ?bps. \<exists>bp' \<in> set ?bps. File bp \<noteq> File bp'"
    by auto
  from SetBreakpoints_rejects
    [of "\<lambda>msg n. (Inr (DAPResponse (ResponseMsg (SetBreakpointsResponse ''{}''))), Suc n)"
        "0::nat" ?bps] two_files
  show ?thesis by blast
qed

lemma recording_SetBreakpoints:
  assumes "bps \<noteq> []" and "\<forall>bp \<in> set bps. File bp = File (hd bps)"
  shows "snd (SetBreakpoints (recording session) bps (requests, s)) =
     (requests @ [RequestMsg (SetBreakpointsRequest
                    (request_header 0 ''setBreakpoints'')
                    \<lparr>Source_Path = File (hd bps), Breakpoints = map to_SourceBreakpoint bps\<rparr>)],
      snd (session (DAPRequest (RequestMsg (SetBreakpointsRequest
                    (request_header 0 ''setBreakpoints'')
                    \<lparr>Source_Path = File (hd bps), Breakpoints = map to_SourceBreakpoint bps\<rparr>))) s))"
proof (cases bps)
  case Nil
  with assms show ?thesis by simp
next
  case (Cons first others)
  with assms have "\<not> other_file (File first) others"
    by (simp add: other_file_iff)
  with Cons show ?thesis
    by (simp add: SetBreakpoints_def recording_def Let_def
           split: prod.splits sum.splits dap_message.splits dap_response.splits)
qed

lemma to_SourceBreakpoint_fields:
  "i < length bps \<Longrightarrow>
     dap_Line (map to_SourceBreakpoint bps ! i) = Line (bps ! i)
     \<and> dap_Column (map to_SourceBreakpoint bps ! i) = Column (bps ! i)
     \<and> dap_Condition (map to_SourceBreakpoint bps ! i) = Condition (bps ! i)
     \<and> dap_HitCondition (map to_SourceBreakpoint bps ! i) = HitCondition (bps ! i)
     \<and> dap_LogMessage (map to_SourceBreakpoint bps ! i) = LogMessage (bps ! i)"
  by (simp add: to_SourceBreakpoint_def)

text \<open>
  C5. For a non-empty list of locations of one file, \<^verbatim>\<open>SetBreakpoints\<close> hands the session
  exactly one request: command \<^verbatim>\<open>setBreakpoints\<close>, the source path of the first location,
  and one source breakpoint per location, in order, with the location's line, column,
  condition, hit condition and log message. The request is a function of the list
  alone: it does not depend on the session, on its state or on the requests made before.
  A second call adds a request built from the second list only. \<^verbatim>\<open>SetSourceBreakpoints\<close>
  sends the given path and one breakpoint per line number.
\<close>

theorem SetBreakpoints_request:
  "(bps \<noteq> [] \<longrightarrow> (\<forall>bp \<in> set bps. File bp = File (hd bps)) \<longrightarrow>
      fst (snd (SetBreakpoints (recording session) bps (requests, s)))
        = requests @ [RequestMsg (SetBreakpointsRequest (request_header 0 ''setBreakpoints'')
            \<lparr>Source_Path = File (hd bps), Breakpoints = map to_SourceBreakpoint bps\<rparr>)]
      \<and> length (map to_SourceBreakpoint bps) = length bps
      \<and> (\<forall>i < length bps.
            dap_Line (map to_SourceBreakpoint bps ! i) = Line (bps ! i)
            \<and> dap_Column (map to_SourceBreakpoint bps ! i) = Column (bps ! i)
            \<and> dap_Condition (map to_SourceBreakpoint bps ! i) = Condition (bps ! i)
            \<and> dap_HitCondition (map to_SourceBreakpoint bps ! i) = HitCondition (bps ! i)
            \<and> dap_LogMessage (map to_SourceBreakpoint bps ! i) = LogMessage (bps ! i)))
   \<and> (bps \<noteq> [] \<longrightarrow> (\<forall>bp \<in> set bps. File bp = File (hd bps)) \<longrightarrow>
       bps' \<noteq> [] \<longrightarrow> (\<forall>bp \<in> set bps'. File bp = File (hd bps')) \<longrightarrow>
      fst (snd (SetBreakpoints (recording session) bps'
                  (snd (SetBreakpoints (recording session) bps (requests, s)))))
        = requests @
          [RequestMsg (SetBreakpointsRequest (request_header 0 ''setBreakpoints'')
             \<lparr>Source_Path = File (hd bps), Breakpoints = map to_SourceBreakpoint bps\<rparr>),
           RequestMsg (SetBreakpointsRequest (request_header 0 ''setBreakpoints'')
             \<lparr>Source_Path = File (hd bps'), Breakpoints = map to_SourceBreakpoint bps'\<rparr>)])
   \<and> (lines \<noteq> [] \<longrightarrow>
      fst (snd (SetSourceBreakpoints (recording session) sourcePath lines (requests, s)))
        = requests @ [RequestMsg (SetBreakpointsRequest (request_header 0 ''setBreakpoints'')
            \<lparr>Source_Path = sourcePath,
             Breakpoints = map (\<lambda>line. \<lparr>dap_Line = line, dap_Column = 0, dap_Condition = [],
                                        dap_HitCondition = [], dap_LogMessage = []\<rparr>) lines\<rparr>)])"
proof -
  have one: "fst (snd (SetBreakpoints (recording session) bs (rs, t)))
        = rs @ [RequestMsg (SetBreakpointsRequest (request_header 0 ''setBreakpoints'')
            \<lparr>Source_Path = File (hd bs), Breakpoints = map to_SourceBreakpoint bs\<rparr>)]"
    if "bs \<noteq> []" and "\<forall>bp \<in> set bs. File bp = File (hd bs)" for bs rs t
    using recording_SetBreakpoints[OF that, of session rs t] by simp
  have two: "fst (snd (SetBreakpoints (recording session) bps'
                  (snd (SetBreakpoints (recording session) bps (requests, s)))))
        = requests @
          [RequestMsg (SetBreakpointsRequest (request_header 0 ''setBreakpoints'')
             \<lparr>Source_Path = File (hd bps), Breakpoints = map to_SourceBreakpoint bps\<rparr>),
           RequestMsg (SetBreakpointsRequest (request_header 0 ''setBreakpoints'')
             \<lparr>Source_Path = File (hd bps'), Breakpoints = map to_SourceBreakpoint bps'\<rparr>)]"
    if a: "bps \<noteq> []" "\<forall>bp \<in> set bps. File bp = File (hd bps)"
      and b: "bps' \<noteq> []" "\<forall>bp \<in> set bps'. File bp = File (hd bps')"
  proof -
    obtain rs t where st: "snd (SetBreakpoints (recording session) bps (requests, s)) = (rs, t)"
      by (cases "snd (SetBreakpoints (recording session) bps (requests, s))")
    with one[OF a, of requests s] have rs: "rs = requests @
          [RequestMsg (SetBreakpointsRequest (request_header 0 ''setBreakpoints'')
             \<lparr>Source_Path = File (hd bps), Breakpoints = map to_SourceBreakpoint bps\<rparr>)]"
      by simp
    show ?thesis
      unfolding st using one[OF b, of rs t] by (simp add: rs)
  qed
  have src: "fst (snd (SetSourceBreakpoints (recording session) sourcePath lines (requests, s)))
        = requests @ [RequestMsg (SetBreakpointsRequest (request_header 0 ''setBreakpoints'')
            \<lparr>Source_Path = sourcePath,
             Breakpoints = map (\<lambda>line. \<lparr>dap_Line = line, dap_Column = 0, dap_Condition = [],
                                        dap_HitCondition = [], dap_LogMessage = []\<rparr>) lines\<rparr>)]"
    if "lines \<noteq> []"
  proof -
    let ?bs = "map (\<lambda>line. \<lparr>File = sourcePath, Line = line, Column = 0, Condition = [],
                     HitCondition = [], LogMessage = []\<rparr>) lines"
    from that have ne: "?bs \<noteq> []" by simp
    from that have hd: "File (hd ?bs) = sourcePath" by (cases lines) simp_all
    then have same: "\<forall>bp \<in> set ?bs. File bp = File (hd ?bs)" by auto
    show ?thesis
      unfolding SetSourceBreakpoints_def
      using one[OF ne same, of requests s] hd
      by (simp add: to_SourceBreakpoint_def comp_def)
  qed
  have fields: "\<forall>i < length bps.
            dap_Line (map to_SourceBreakpoint bps ! i) = Line (bps ! i)
            \<and> dap_Column (map to_SourceBreakpoint bps ! i) = Column (bps ! i)
            \<and> dap_Condition (map to_SourceBreakpoint bps ! i) = Condition (bps ! i)
            \<and> dap_HitCondition (map to_SourceBreakpoint bps ! i) = HitCondition (bps ! i)
            \<and> dap_LogMessage (map to_SourceBreakpoint bps ! i) = LogMessage (bps ! i)"
    using to_SourceBreakpoint_fields[of _ bps] by blast
  have len: "length (map to_SourceBreakpoint bps) = length bps"
    by simp
  from one[of bps requests s] two src fields len show ?thesis
    by blast
qed

theorem SetBreakpoints_request_witness:
  "fst (snd (SetSourceBreakpoints
        (recording (\<lambda>msg n. (Inr (DAPResponse (ResponseMsg (SetBreakpointsResponse ''{}''))), Suc n)))
        ''/x.go'' [30]
        (snd (SetSourceBreakpoints
          (recording (\<lambda>msg n. (Inr (DAPResponse (ResponseMsg (SetBreakpointsResponse ''{}''))), Suc n)))
          ''/x.go'' [10, 20] ([], 0::nat)))))
   = [RequestMsg (SetBreakpointsRequest (request_header 0 ''setBreakpoints'')
        \<lparr>Source_Path = ''/x.go'',
         Breakpoints = [\<lparr>dap_Line = 10, dap_Column = 0, dap_Condition = [],
                         dap_HitCondition = [], dap_LogMessage = []\<rparr>,
                        \<lparr>dap_Line = 20, dap_Column = 0, dap_Condition = [],
                         dap_HitCondition = [], dap_LogMessage = []\<rparr>]\<rparr>),
      RequestMsg (SetBreakpointsRequest (request_header 0 ''setBreakpoints'')
        \<lparr>Source_Path = ''/x.go'',
         Breakpoints = [\<lparr>dap_Line = 30, dap_Column = 0, dap_Condition = [],
                         dap_HitCondition = [], dap_LogMessage = []\<rparr>]\<rparr>)]"
proof -
  let ?session = "recording (\<lambda>msg n. (Inr (DAPResponse (ResponseMsg (SetBreakpointsResponse ''{}''))), Suc n))"
  let ?b1 = "map (\<lambda>line. \<lparr>File = ''/x.go'', Line = line, Column = 0, Condition = [],
                     HitCondition = [], LogMessage = []\<rparr>) [10, 20]"
  let ?b2 = "map (\<lambda>line. \<lparr>File = ''/x.go'', Line = line, Column = 0, Condition = [],
                     HitCondition = [], LogMessage = []\<rparr>) [30]"
  have h1: "?b1 \<noteq> []" "\<forall>bp \<in> set ?b1. File bp = File (hd ?b1)" by simp_all
  have h2: "?b2 \<noteq> []" "\<forall>bp \<in> set ?b2. File bp = File (hd ?b2)" by simp_all
  note two = SetBreakpoints_request
    [of ?b1 "\<lambda>msg n. (Inr (DAPResponse (ResponseMsg (SetBreakpointsResponse ''{}''))), Suc n)"
        "[]" "0::nat" ?b2, THEN conjunct2, THEN conjunct1,
        THEN mp, OF h1(1), THEN mp, OF h1(2), THEN mp, OF h2(1), THEN mp, OF h2(2)]
  then show ?thesis
    by (simp add: SetSourceBreakpoints_def to_SourceBreakpoint_def)
qed

lemma recording_SetFunctionBreakpoints:
  "fst (snd (SetFunctionBreakpoints (recording session) bps (requests, s))) =
     requests @ [RequestMsg (SetFunctionBreakpointsRequest
                    (request_header 0 ''setFunctionBreakpoints'')
                    (map to_dap_FunctionBreakpoint bps))]"
  by (simp add: SetFunctionBreakpoints_def recording_def Let_def
           split: prod.splits sum.splits dap_message.splits dap_response.splits)

lemma SetFunctionBreakpoints_accepted:
  assumes "session (DAPRequest (RequestMsg (SetFunctionBreakpointsRequest
                    (request_header 0 ''setFunctionBreakpoints'')
                    (map to_dap_FunctionBreakpoint bps)))) s
             = (Inr (DAPResponse (ResponseMsg (SetFunctionBreakpointsResponse b))), s')"
  shows "SetFunctionBreakpoints session bps s = (Inr (SetFunctionBreakpointsResponse b), s')"
  using assms by (simp add: SetFunctionBreakpoints_def Let_def)

text \<open>
  C10. \<^verbatim>\<open>SetFunctionBreakpoints\<close> validates nothing: for every list, the empty one
  included, it hands the session one \<^verbatim>\<open>setFunctionBreakpoints\<close> request whose breakpoints
  are the given entries in order (name, condition, hit condition), and when the session
  answers with a \<^verbatim>\<open>SetFunctionBreakpointsResponse\<close> that answer is the result. An empty
  list is sent as an empty array. \<^verbatim>\<open>SetSimpleFunctionBreakpoints\<close> does the same from
  names. \<^verbatim>\<open>SetBreakpoints\<close>, in contrast, rejects the empty list and sends nothing.
\<close>

theorem SetFunctionBreakpoints_no_validation:
  "fst (snd (SetFunctionBreakpoints (recording session) bps (requests, s)))
     = requests @ [RequestMsg (SetFunctionBreakpointsRequest
                     (request_header 0 ''setFunctionBreakpoints'')
                     (map to_dap_FunctionBreakpoint bps))]
   \<and> map dap_Name (map to_dap_FunctionBreakpoint bps) = map Name bps
   \<and> map dap_FnCondition (map to_dap_FunctionBreakpoint bps) = map FnCondition bps
   \<and> map dap_FnHitCondition (map to_dap_FunctionBreakpoint bps) = map FnHitCondition bps
   \<and> fst (snd (SetFunctionBreakpoints (recording session) [] (requests, s)))
     = requests @ [RequestMsg (SetFunctionBreakpointsRequest
                     (request_header 0 ''setFunctionBreakpoints'') [])]
   \<and> (session (DAPRequest (RequestMsg (SetFunctionBreakpointsRequest
                    (request_header 0 ''setFunctionBreakpoints'')
                    (map to_dap_FunctionBreakpoint bps)))) s
          = (Inr (DAPResponse (ResponseMsg (SetFunctionBreakpointsResponse b))), s')
        \<longrightarrow> SetFunctionBreakpoints session bps s = (Inr (SetFunctionBreakpointsResponse b), s'))
   \<and> fst (snd (SetSimpleFunctionBreakpoints (recording session) functionNames (requests, s)))
     = requests @ [RequestMsg (SetFunctionBreakpointsRequest
                     (request_header 0 ''setFunctionBreakpoints'')
                     (map (\<lambda>name. \<lparr>dap_Name = name, dap_FnCondition = [],
                                       dap_FnHitCondition = []\<rparr>) functionNames))]
   \<and> SetBreakpoints (recording session) [] (requests, s)
     = (Inl (ErrorString ''no breakpoints provided''), (requests, s))"
proof -
  have simple: "fst (snd (SetSimpleFunctionBreakpoints (recording session) functionNames
                            (requests, s)))
     = requests @ [RequestMsg (SetFunctionBreakpointsRequest
                     (request_header 0 ''setFunctionBreakpoints'')
                     (map (\<lambda>name. \<lparr>dap_Name = name, dap_FnCondition = [],
                                       dap_FnHitCondition = []\<rparr>) functionNames))]"
    unfolding SetSimpleFunctionBreakpoints_def recording_SetFunctionBreakpoints
    by (simp add: to_dap_FunctionBreakpoint_def comp_def)
  have fields: "map dap_Name (map to_dap_FunctionBreakpoint bps) = map Name bps"
    "map dap_FnCondition (map to_dap_FunctionBreakpoint bps) = map FnCondition bps"
    "map dap_FnHitCondition (map to_dap_FunctionBreakpoint bps) = map FnHitCondition bps"
    by (simp_all add: to_dap_FunctionBreakpoint_def comp_def)
  have empty: "fst (snd (SetFunctionBreakpoints (recording session) [] (requests, s)))
     = requests @ [RequestMsg (SetFunctionBreakpointsRequest
                     (request_header 0 ''setFunctionBreakpoints'') [])]"
    using recording_SetFunctionBreakpoints[of session "[]" requests s] by simp
  have rejected: "SetBreakpoints (recording session) [] (requests, s)
     = (Inl (ErrorString ''no breakpoints provided''), (requests, s))"
    by (simp add: SetBreakpoints_def)
  from recording_SetFunctionBreakpoints[of session bps requests s] fields empty
    SetFunctionBreakpoints_accepted[of session bps s b s'] simple rejected
  show ?thesis by blast
qed

theorem SetFunctionBreakpoints_no_validation_witness:
  "SetFunctionBreakpoints
     (recording (\<lambda>msg n.
        (Inr (DAPResponse (ResponseMsg (SetFunctionBreakpointsResponse ''{}''))), Suc n)))
     [] ([], 0::nat)
   = (Inr (SetFunctionBreakpointsResponse ''{}''),
      ([RequestMsg (SetFunctionBreakpointsRequest
                     (request_header 0 ''setFunctionBreakpoints'') [])], Suc 0))"
proof -
  let ?inner = "\<lambda>msg n::nat.
        (Inr (DAPResponse (ResponseMsg (SetFunctionBreakpointsResponse ''{}''))), Suc n)"
  have answered: "recording ?inner (DAPRequest (RequestMsg (SetFunctionBreakpointsRequest
                    (request_header 0 ''setFunctionBreakpoints'')
                    (map to_dap_FunctionBreakpoint [])))) ([], 0)
          = (Inr (DAPResponse (ResponseMsg (SetFunctionBreakpointsResponse ''{}''))),
             ([RequestMsg (SetFunctionBreakpointsRequest
                     (request_header 0 ''setFunctionBreakpoints'') [])], Suc 0))"
    by (simp add: recording_def)
  note accepted = SetFunctionBreakpoints_no_validation
    [of "recording ?inner" "[]" "[]" "([], 0::nat)" "''{}''"
        "([RequestMsg (SetFunctionBreakpointsRequest
                     (request_header 0 ''setFunctionBreakpoints'') [])], Suc 0)" "[]",
     THEN conjunct2, THEN conjunct2, THEN conjunct2, THEN conjunct2, THEN conjunct2,
     THEN conjunct1, THEN mp, OF answered]
  then show ?thesis .
qed

section \<open>Response type assertions of the helpers\<close>

text \<open>
  C6. What the helpers do when the session answers with a \<^verbatim>\<open>dap.ErrorResponse\<close>:
  \<^verbatim>\<open>Continue\<close> and the mode-deriving \<^verbatim>\<open>LaunchProgram\<close> return an error with the backend's
  message and numeric identifier, while \<^verbatim>\<open>Next\<close>, \<^verbatim>\<open>StepIn\<close>, \<^verbatim>\<open>StepOut\<close>, \<^verbatim>\<open>Pause\<close>,
  \<^verbatim>\<open>InitializeSession\<close>, \<^verbatim>\<open>SetBreakpoints\<close> and \<^verbatim>\<open>SetFunctionBreakpoints\<close> return only
  the generic "unexpected response type: *dap.ErrorResponse", in which neither the
  message nor the identifier appears.
\<close>

theorem helpers_on_ErrorResponse:
  "Continue (\<lambda>msg s. (Inr (DAPResponse (ResponseMsg (ErrorResponse format ident))), s))
       threadID s
     = (Inl (ErrorString (''continue failed: '' @ format @ '' (id: '' @ show_int ident @ '')'')),
        s)
   \<and> LaunchProgram stat (\<lambda>msg s. (Inr (DAPResponse (ResponseMsg (ErrorResponse format ident))), s))
       config s
     = (Inl (ErrorString (''launch failed: '' @ format @ '' (id: '' @ show_int ident @ '')'')),
        s)
   \<and> Next (\<lambda>msg s. (Inr (DAPResponse (ResponseMsg (ErrorResponse format ident))), s))
       threadID s
     = (Inl (ErrorString ''unexpected response type: *dap.ErrorResponse''), s)
   \<and> StepIn (\<lambda>msg s. (Inr (DAPResponse (ResponseMsg (ErrorResponse format ident))), s))
       threadID s
     = (Inl (ErrorString ''unexpected response type: *dap.ErrorResponse''), s)
   \<and> StepOut (\<lambda>msg s. (Inr (DAPResponse (ResponseMsg (ErrorResponse format ident))), s))
       threadID s
     = (Inl (ErrorString ''unexpected response type: *dap.ErrorResponse''), s)
   \<and> Pause (\<lambda>msg s. (Inr (DAPResponse (ResponseMsg (ErrorResponse format ident))), s))
       threadID s
     = (Inl (ErrorString ''unexpected response type: *dap.ErrorResponse''), s)
   \<and> InitializeSession
       (\<lambda>msg s. (Inr (DAPResponse (ResponseMsg (ErrorResponse format ident))), s)) clientID s
     = (Inl (ErrorString ''unexpected response type: *dap.ErrorResponse''), s)
   \<and> SetFunctionBreakpoints
       (\<lambda>msg s. (Inr (DAPResponse (ResponseMsg (ErrorResponse format ident))), s)) fbps s
     = (Inl (ErrorString ''unexpected response type: *dap.ErrorResponse''), s)
   \<and> SetBreakpoints
       (\<lambda>msg s. (Inr (DAPResponse (ResponseMsg (ErrorResponse format ident))), s)) [bp] s
     = (Inl (ErrorString ''unexpected response type: *dap.ErrorResponse''), s)"
  by (simp add: Continue_def LaunchProgram_def Next_def StepIn_def StepOut_def Pause_def
        InitializeSession_def SetFunctionBreakpoints_def SetBreakpoints_def
        unexpected_response_type_def Let_def)

theorem helpers_on_ErrorResponse_witness:
  "Next (\<lambda>msg s. (Inr (DAPResponse (ResponseMsg (ErrorResponse ''unknown goroutine 7'' 2004))), s))
       7 (0::nat)
     = (Inl (ErrorString ''unexpected response type: *dap.ErrorResponse''), 0)
   \<and> \<not> Contains ''unexpected response type: *dap.ErrorResponse'' ''unknown goroutine 7''
   \<and> \<not> Contains ''unexpected response type: *dap.ErrorResponse'' (show_int 2004)"
proof -
  have a: "Next (\<lambda>msg s. (Inr (DAPResponse (ResponseMsg (ErrorResponse ''unknown goroutine 7'' 2004))), s))
       7 (0::nat)
     = (Inl (ErrorString ''unexpected response type: *dap.ErrorResponse''), 0)"
    using helpers_on_ErrorResponse[of "''unknown goroutine 7''" 2004 7 "0::nat"] by blast
  have b: "\<not> Contains ''unexpected response type: *dap.ErrorResponse'' ''unknown goroutine 7''"
    by code_simp
  have c: "show_int 2004 = ''2004''"
    by code_simp
  have d: "\<not> Contains ''unexpected response type: *dap.ErrorResponse'' ''2004''"
    by code_simp
  from a b c d show ?thesis by simp
qed

section \<open>Properties of the launch helper\<close>




lemma launch_arguments_dap_api_fields:
  "launch_arguments_dap_api config ''mode'' = Some (JString ''debug'')"
  "launch_arguments_dap_api config ''buildFlags'' =
     (if BuildFlags config = [] then None else Some (JStrings (BuildFlags config)))"
  by (simp_all add: launch_arguments_dap_api_def add_buildFlags_def add_optional_def Let_def)


lemma recording_LaunchProgram_dap_api:
  "fst (snd (LaunchProgram_dap_api (recording session) config (requests, s)))
     = requests @ [RequestMsg (LaunchRequest (request_header 2 ''launch'')
                      (launch_arguments_dap_api config))]"
  by (simp add: LaunchProgram_dap_api_def recording_def Let_def
           split: prod.splits sum.splits dap_message.splits dap_response.splits)









section \<open>Decimal text is injective\<close>

lemma digit_char_inj:
  assumes "n < 10" and "m < 10" and "digit_char n = digit_char m"
  shows "n = m"
proof -
  have "distinct ''0123456789''" by simp
  moreover have "n < length ''0123456789''" "m < length ''0123456789''"
    using assms by simp_all
  ultimately show ?thesis
    using assms(3) unfolding digit_char_def by (simp only: nth_eq_iff_index_eq)
qed

lemma digit_char_not_minus: "n < 10 \<Longrightarrow> digit_char n \<noteq> CHR ''-''"
proof -
  assume "n < 10"
  then have "digit_char n \<in> set ''0123456789''"
    unfolding digit_char_def by (intro nth_mem) simp
  then show ?thesis by auto
qed

lemma string_of_nat_small: "n < 10 \<Longrightarrow> string_of_nat n = [digit_char n]"
  by (subst string_of_nat.simps) simp

lemma string_of_nat_large:
  "\<not> n < 10 \<Longrightarrow> string_of_nat n = string_of_nat (n div 10) @ [digit_char (n mod 10)]"
  by (subst string_of_nat.simps) simp

lemma string_of_nat_not_Nil: "string_of_nat n \<noteq> []"
  by (cases "n < 10") (simp_all add: string_of_nat_small string_of_nat_large)

lemma string_of_nat_no_minus: "CHR ''-'' \<notin> set (string_of_nat n)"
proof (induction n rule: string_of_nat.induct)
  case (1 n)
  show ?case
  proof (cases "n < 10")
    case True
    then show ?thesis
      using digit_char_not_minus[of n] by (simp add: string_of_nat_small)
  next
    case False
    with 1 have "CHR ''-'' \<notin> set (string_of_nat (n div 10))" by simp
    moreover have "digit_char (n mod 10) \<noteq> CHR ''-''"
      by (rule digit_char_not_minus) simp
    ultimately show ?thesis
      using False by (simp add: string_of_nat_large)
  qed
qed

lemma string_of_nat_inj: "string_of_nat n = string_of_nat m \<Longrightarrow> n = m"
proof (induction n arbitrary: m rule: string_of_nat.induct)
  case (1 n)
  show ?case
  proof (cases "n < 10")
    case n_small: True
    show ?thesis
    proof (cases "m < 10")
      case True
      with n_small "1.prems" show ?thesis
        by (simp add: string_of_nat_small digit_char_inj)
    next
      case False
      with n_small "1.prems" show ?thesis
        using string_of_nat_not_Nil[of "m div 10"]
        by (simp add: string_of_nat_small string_of_nat_large)
    qed
  next
    case n_large: False
    show ?thesis
    proof (cases "m < 10")
      case True
      with n_large "1.prems" show ?thesis
        using string_of_nat_not_Nil[of "n div 10"]
        by (simp add: string_of_nat_small string_of_nat_large)
    next
      case False
      with n_large "1.prems"
      have eq: "string_of_nat (n div 10) = string_of_nat (m div 10)"
        and dg: "digit_char (n mod 10) = digit_char (m mod 10)"
        by (simp_all add: string_of_nat_large)
      from "1.IH"[OF n_large eq] have "n div 10 = m div 10" .
      moreover from dg have "n mod 10 = m mod 10"
        by (intro digit_char_inj) simp_all
      ultimately show ?thesis
        by (metis div_mult_mod_eq)
    qed
  qed
qed

lemma show_int_inj: "show_int i = show_int j \<Longrightarrow> i = j"
proof -
  assume eq: "show_int i = show_int j"
  have hd_nat: "hd (string_of_nat k) \<noteq> CHR ''-''" for k
    using string_of_nat_no_minus[of k] string_of_nat_not_Nil[of k]
    by (cases "string_of_nat k") auto
  show ?thesis
  proof (cases "i < 0")
    case i_neg: True
    show ?thesis
    proof (cases "j < 0")
      case True
      with i_neg eq have "string_of_nat (nat (- i)) = string_of_nat (nat (- j))"
        by (simp add: show_int_def)
      then have "nat (- i) = nat (- j)" by (rule string_of_nat_inj)
      with i_neg True show ?thesis by simp
    next
      case False
      with i_neg eq have "CHR ''-'' # string_of_nat (nat (- i)) = string_of_nat (nat j)"
        by (simp add: show_int_def)
      then have "hd (string_of_nat (nat j)) = CHR ''-''" by (metis list.sel(1))
      with hd_nat show ?thesis by simp
    qed
  next
    case i_pos: False
    show ?thesis
    proof (cases "j < 0")
      case True
      with i_pos eq have "string_of_nat (nat i) = CHR ''-'' # string_of_nat (nat (- j))"
        by (simp add: show_int_def)
      then have "hd (string_of_nat (nat i)) = CHR ''-''" by (metis list.sel(1))
      with hd_nat show ?thesis by simp
    next
      case False
      with i_pos eq have "string_of_nat (nat i) = string_of_nat (nat j)"
        by (simp add: show_int_def)
      then have "nat i = nat j" by (rule string_of_nat_inj)
      with i_pos False show ?thesis by simp
    qed
  qed
qed

section \<open>Properties of the debugger factory\<close>

lemma FindInReceptionist_registered:
  "FindInReceptionist (RegisterWithSystem sys key actor) key
     = FindInReceptionist sys key @ [actor]"
  by (simp add: FindInReceptionist_def RegisterWithSystem_def)

lemma FindInReceptionist_fresh:
  "key \<notin> fst ` set sys \<Longrightarrow> FindInReceptionist sys key = []"
  by (auto simp: FindInReceptionist_def filter_empty_conv)

lemma create_session_failed:
  "create_session d (Inl err) = (Err (WrapError ''could not create session: '' (Some err)), d)"
  by (simp add: create_session_def)

lemma create_session_state:
  assumes "system d = Some sys"
  shows "snd (create_session d (Inr session))
     = d\<lparr>nextSessionID := incr (nextSessionID d),
         system := Some (sys @ [(''session-'' @ show_int (incr (nextSessionID d)), session)])\<rparr>"
    and "fst (create_session d (Inr session)) \<noteq> Panic"
    and "\<exists>ref. fst (create_session d (Inr session)) = Ok ref"
proof -
  have found: "FindInReceptionist
        (RegisterWithSystem sys (''session-'' @ show_int (incr (nextSessionID d))) session)
        (''session-'' @ show_int (incr (nextSessionID d))) \<noteq> []"
    by (simp only: FindInReceptionist_registered) simp
  show "snd (create_session d (Inr session))
     = d\<lparr>nextSessionID := incr (nextSessionID d),
         system := Some (sys @ [(''session-'' @ show_int (incr (nextSessionID d)), session)])\<rparr>"
    using assms found
    by (auto simp: create_session_def Let_def RegisterWithSystem_def split: list.splits)
  show "fst (create_session d (Inr session)) \<noteq> Panic"
    using assms found
    by (auto simp: create_session_def Let_def split: list.splits)
  show "\<exists>ref. fst (create_session d (Inr session)) = Ok ref"
    using assms found
    by (auto simp: create_session_def Let_def split: list.splits)
qed

lemma create_session_fresh:
  assumes "system d = Some sys"
    and "''session-'' @ show_int (incr (nextSessionID d)) \<notin> fst ` set sys"
  shows "fst (create_session d (Inr session)) = Ok session"
  using assms
  by (simp add: create_session_def Let_def FindInReceptionist_registered
        FindInReceptionist_fresh)

lemma incr_below: "n \<noteq> 2 ^ 63 - 1 \<Longrightarrow> incr n = n + 1"
  by (simp add: incr_def)

lemma debugger_Receive_creates:
  assumes "cmd = StartDebuggerCmd \<or> cmd = CreateSessionCmd" and "system d = Some sys"
    and "nextSessionID d \<noteq> 2 ^ 63 - 1"
  shows "\<exists>ref. debugger_Receive d cmd (Inr session)
           = (Ok ref, d\<lparr>nextSessionID := nextSessionID d + 1,
                 system := Some (sys @ [(''session-'' @ show_int (nextSessionID d + 1),
                                        session)])\<rparr>)"
proof -
  from assms(1) have "debugger_Receive d cmd (Inr session) = create_session d (Inr session)"
    by (auto simp: debugger_Receive_def)
  moreover obtain ref where "fst (create_session d (Inr session)) = Ok ref"
    using create_session_state(3)[OF assms(2)] by blast
  ultimately show ?thesis
    using create_session_state(1)[OF assms(2), of session] incr_below[OF assms(3)]
    by (metis prod.collapse)
qed

lemma debugger_Receive_no_session:
  assumes "\<not> ((cmd = StartDebuggerCmd \<or> cmd = CreateSessionCmd) \<and> \<not> isl new_session)"
  shows "\<exists>err. debugger_Receive d cmd new_session = (Err err, d)"
  using assms
  by (cases cmd; cases new_session)
     (simp_all add: debugger_Receive_def create_session_failed)

lemma handle_all_keys:
  assumes "system d = Some sys" and "nextSessionID d + int (length cmds) < 2 ^ 63"
  shows "nextSessionID (snd (handle_all d cmds))
       = nextSessionID d
         + int (length (filter (\<lambda>c. (fst c = StartDebuggerCmd \<or> fst c = CreateSessionCmd)
                                       \<and> \<not> isl (snd c)) cmds))
     \<and> registered_keys (snd (handle_all d cmds))
       = map fst sys @ map (\<lambda>i. ''session-'' @ show_int (nextSessionID d + 1 + int i))
           [0 ..< length (filter (\<lambda>c. (fst c = StartDebuggerCmd \<or> fst c = CreateSessionCmd)
                                       \<and> \<not> isl (snd c)) cmds)]
     \<and> Panic \<notin> set (fst (handle_all d cmds))"
  using assms
proof (induction cmds arbitrary: d sys)
  case Nil
  then show ?case by (simp add: registered_keys_def)
next
  case (Cons c rest)
  let ?creates = "\<lambda>c. (fst c = StartDebuggerCmd \<or> fst c = CreateSessionCmd) \<and> \<not> isl (snd c)"
  let ?k = "length (filter ?creates rest)"
  obtain cmd new_session where c: "c = (cmd, new_session)" by (cases c)
  show ?case
  proof (cases "?creates c")
    case True
    with c obtain session where ns: "new_session = Inr session"
      by (cases new_session) auto
    from Cons.prems have below: "nextSessionID d \<noteq> 2 ^ 63 - 1" by simp
    let ?key = "''session-'' @ show_int (nextSessionID d + 1)"
    let ?d1 = "d\<lparr>nextSessionID := nextSessionID d + 1,
                 system := Some (sys @ [(?key, session)])\<rparr>"
    from True c obtain ref where step: "debugger_Receive d cmd (Inr session) = (Ok ref, ?d1)"
      using debugger_Receive_creates[OF _ Cons.prems(1) below, of cmd session] by auto
    have sys1: "system ?d1 = Some (sys @ [(?key, session)])"
      by simp
    have room: "nextSessionID ?d1 + int (length rest) < 2 ^ 63"
      using Cons.prems(2) by simp
    note IH = Cons.IH[OF sys1 room]
    have unfold: "handle_all d (c # rest)
        = (Ok ref # fst (handle_all ?d1 rest), snd (handle_all ?d1 rest))"
      unfolding c ns by (simp add: step split: prod.splits)
    have count: "length (filter ?creates (c # rest)) = Suc ?k"
      using True by simp
    have upt: "[0 ..< Suc ?k] = 0 # map Suc [0 ..< ?k]"
      by (simp add: upt_conv_Cons map_Suc_upt del: upt_Suc)
    have shift: "map (\<lambda>i. ''session-'' @ show_int (nextSessionID d + 1 + int i)) [0 ..< Suc ?k]
        = ?key # map (\<lambda>i. ''session-'' @ show_int (nextSessionID ?d1 + 1 + int i)) [0 ..< ?k]"
      unfolding upt by (simp add: comp_def add.commute add.left_commute)
    have a: "nextSessionID (snd (handle_all d (c # rest)))
               = nextSessionID d + int (length (filter ?creates (c # rest)))"
      unfolding unfold count using IH by simp
    have b: "registered_keys (snd (handle_all d (c # rest)))
               = map fst sys @ map (\<lambda>i. ''session-'' @ show_int (nextSessionID d + 1 + int i))
                   [0 ..< length (filter ?creates (c # rest))]"
      unfolding unfold count shift using IH by simp
    have p: "Panic \<notin> set (fst (handle_all d (c # rest)))"
      unfolding unfold using IH by simp
    from a b p show ?thesis by blast
  next
    case False
    with c obtain err where step: "debugger_Receive d cmd new_session = (Err err, d)"
      using debugger_Receive_no_session[of cmd new_session d] by auto
    have room: "nextSessionID d + int (length rest) < 2 ^ 63"
      using Cons.prems(2) by simp
    note IH = Cons.IH[OF Cons.prems(1) room]
    have unfold: "handle_all d (c # rest)
        = (Err err # fst (handle_all d rest), snd (handle_all d rest))"
      unfolding c by (simp add: step split: prod.splits)
    have count: "length (filter ?creates (c # rest)) = ?k"
      using False by simp
    have a: "nextSessionID (snd (handle_all d (c # rest)))
               = nextSessionID d + int (length (filter ?creates (c # rest)))"
      unfolding unfold count using IH by simp
    have b: "registered_keys (snd (handle_all d (c # rest)))
               = map fst sys @ map (\<lambda>i. ''session-'' @ show_int (nextSessionID d + 1 + int i))
                   [0 ..< length (filter ?creates (c # rest))]"
      unfolding unfold count using IH by simp
    have p: "Panic \<notin> set (fst (handle_all d (c # rest)))"
      unfolding unfold using IH by simp
    from a b p show ?thesis by blast
  qed
qed

lemma session_ids_distinct:
  "distinct (map (\<lambda>i. ''session-'' @ show_int (n + 1 + int i)) [0 ..< k])"
proof -
  have "inj_on (\<lambda>i. ''session-'' @ show_int (n + 1 + int i)) (set [0 ..< k])"
    by (rule inj_onI) (auto dest: show_int_inj)
  then show ?thesis
    by (simp add: distinct_map)
qed

lemma create_session_nil_system:
  "system d = None \<Longrightarrow>
     create_session d (Inr session) = (Panic, d\<lparr>nextSessionID := incr (nextSessionID d)\<rparr>)"
  by (simp add: create_session_def Let_def)

lemma debugger_Receive_Ok:
  assumes "fst (debugger_Receive d cmd new_session) = Ok ref"
  shows "(cmd = StartDebuggerCmd \<or> cmd = CreateSessionCmd)
     \<and> (\<exists>sys session others. system d = Some sys \<and> new_session = Inr session
           \<and> snd (debugger_Receive d cmd new_session)
               = d\<lparr>nextSessionID := incr (nextSessionID d),
                   system := Some (sys @ [(''session-'' @ show_int (incr (nextSessionID d)),
                                          session)])\<rparr>
           \<and> FindInReceptionist
                 (sys @ [(''session-'' @ show_int (incr (nextSessionID d)), session)])
                 (''session-'' @ show_int (incr (nextSessionID d))) = ref # others)"
proof -
  from assms have cmd: "cmd = StartDebuggerCmd \<or> cmd = CreateSessionCmd"
    by (cases cmd) (simp_all add: debugger_Receive_def)
  then have eq: "debugger_Receive d cmd new_session = create_session d new_session"
    by (auto simp: debugger_Receive_def)
  from assms eq obtain session where ns: "new_session = Inr session"
    by (cases new_session) (simp_all add: create_session_failed)
  from assms eq ns obtain sys where sys: "system d = Some sys"
    by (cases "system d") (simp_all add: create_session_nil_system)
  let ?key = "''session-'' @ show_int (incr (nextSessionID d))"
  from assms eq ns sys obtain others where
    "FindInReceptionist (sys @ [(?key, session)]) ?key = ref # others"
    by (auto simp: create_session_def Let_def RegisterWithSystem_def split: list.splits)
  with cmd ns sys create_session_state(1)[OF sys, of session] eq show ?thesis
    by simp
qed

lemma handle_all_nil_system:
  assumes "system d = None"
  shows "Ok ref \<notin> set (fst (handle_all d cmds)) \<and> system (snd (handle_all d cmds)) = None"
  using assms
proof (induction cmds arbitrary: d)
  case Nil
  then show ?case by simp
next
  case (Cons c rest)
  obtain cmd new_session where c: "c = (cmd, new_session)" by (cases c)
  show ?case
  proof (cases "(cmd = StartDebuggerCmd \<or> cmd = CreateSessionCmd) \<and> \<not> isl new_session")
    case True
    then obtain session where ns: "new_session = Inr session" by (cases new_session) auto
    from True have "debugger_Receive d cmd new_session = create_session d new_session"
      by (auto simp: debugger_Receive_def)
    with ns Cons.prems have "debugger_Receive d cmd new_session
        = (Panic, d\<lparr>nextSessionID := incr (nextSessionID d)\<rparr>)"
      by (simp add: create_session_nil_system)
    with Cons.prems show ?thesis
      unfolding c by simp
  next
    case False
    then obtain err where step: "debugger_Receive d cmd new_session = (Err err, d)"
      using debugger_Receive_no_session by blast
    obtain rs d' where run: "handle_all d rest = (rs, d')"
      by (cases "handle_all d rest")
    with Cons.IH[OF Cons.prems] have "Ok ref \<notin> set rs" "system d' = None"
      by simp_all
    then show ?thesis
      unfolding c by (simp add: step run)
  qed
qed

text \<open>
  C8. A creation command (\<^verbatim>\<open>StartDebuggerCmd\<close> or \<^verbatim>\<open>CreateSessionCmd\<close>) whose
  \<^verbatim>\<open>NewSession()\<close> succeeds increments the counter by one and registers the session under
  the key \<^verbatim>\<open>session-N\<close>, N being the incremented counter; the reply holds an actor
  registered under that key (the new session when the key was not registered before).
  When \<^verbatim>\<open>NewSession()\<close> fails the reply is the wrapped error and the factory is unchanged:
  no increment, no registration. Over any run of commands the keys the factory registers
  are \<^verbatim>\<open>session-(n+1)\<close>, \<^verbatim>\<open>session-(n+2)\<close>, ... in order, one per successful creation, and
  they are pairwise distinct (the counter staying below the largest 64-bit integer, where
  \<^verbatim>\<open>++\<close> does not wrap). Conversely a reply that holds a session always comes with the
  increment and the registration. A factory whose actor system is the nil pointer never
  replies with a session: a creation command whose \<^verbatim>\<open>NewSession()\<close> succeeds panics at the
  registration, and nothing is registered.
\<close>

theorem debugger_Receive_session_ids:
  "(cmd = StartDebuggerCmd \<or> cmd = CreateSessionCmd \<longrightarrow> system d = Some sys \<longrightarrow>
      nextSessionID d \<noteq> 2 ^ 63 - 1 \<longrightarrow>
        snd (debugger_Receive d cmd (Inr session))
          = d\<lparr>nextSessionID := nextSessionID d + 1,
              system := Some (sys @ [(''session-'' @ show_int (nextSessionID d + 1), session)])\<rparr>
        \<and> (\<exists>ref. fst (debugger_Receive d cmd (Inr session)) = Ok ref)
        \<and> (''session-'' @ show_int (nextSessionID d + 1) \<notin> fst ` set sys \<longrightarrow>
              fst (debugger_Receive d cmd (Inr session)) = Ok session))
   \<and> (cmd = StartDebuggerCmd \<or> cmd = CreateSessionCmd \<longrightarrow>
        debugger_Receive d cmd (Inl err)
          = (Err (WrapError ''could not create session: '' (Some err)), d))
   \<and> (system d = Some sys \<longrightarrow> nextSessionID d + int (length cmds) < 2 ^ 63 \<longrightarrow>
        nextSessionID (snd (handle_all d cmds))
          = nextSessionID d
            + int (length (filter (\<lambda>c. (fst c = StartDebuggerCmd \<or> fst c = CreateSessionCmd)
                                          \<and> \<not> isl (snd c)) cmds))
        \<and> registered_keys (snd (handle_all d cmds))
          = map fst sys @ map (\<lambda>i. ''session-'' @ show_int (nextSessionID d + 1 + int i))
              [0 ..< length (filter (\<lambda>c. (fst c = StartDebuggerCmd \<or> fst c = CreateSessionCmd)
                                          \<and> \<not> isl (snd c)) cmds)]
        \<and> distinct (map (\<lambda>i. ''session-'' @ show_int (nextSessionID d + 1 + int i))
              [0 ..< length (filter (\<lambda>c. (fst c = StartDebuggerCmd \<or> fst c = CreateSessionCmd)
                                          \<and> \<not> isl (snd c)) cmds)])
        \<and> sorted_wrt (<) (map (\<lambda>i. nextSessionID d + 1 + int i)
              [0 ..< length (filter (\<lambda>c. (fst c = StartDebuggerCmd \<or> fst c = CreateSessionCmd)
                                          \<and> \<not> isl (snd c)) cmds)])
        \<and> Panic \<notin> set (fst (handle_all d cmds)))
   \<and> (fst (debugger_Receive d cmd new_session) = Ok ref \<longrightarrow>
        (cmd = StartDebuggerCmd \<or> cmd = CreateSessionCmd)
        \<and> (\<exists>sys' session' others. system d = Some sys' \<and> new_session = Inr session'
              \<and> snd (debugger_Receive d cmd new_session)
                  = d\<lparr>nextSessionID := incr (nextSessionID d),
                      system := Some (sys' @ [(''session-'' @ show_int (incr (nextSessionID d)),
                                              session')])\<rparr>
              \<and> FindInReceptionist
                    (sys' @ [(''session-'' @ show_int (incr (nextSessionID d)), session')])
                    (''session-'' @ show_int (incr (nextSessionID d))) = ref # others))
   \<and> (cmd = StartDebuggerCmd \<or> cmd = CreateSessionCmd \<longrightarrow> system d = None \<longrightarrow>
        debugger_Receive d cmd (Inr session)
          = (Panic, d\<lparr>nextSessionID := incr (nextSessionID d)\<rparr>))
   \<and> (system d = None \<longrightarrow>
        Ok ref \<notin> set (fst (handle_all d cmds))
        \<and> registered_keys (snd (handle_all d cmds)) = [])"
proof -
  have one: "snd (debugger_Receive d cmd (Inr session))
          = d\<lparr>nextSessionID := nextSessionID d + 1,
              system := Some (sys @ [(''session-'' @ show_int (nextSessionID d + 1), session)])\<rparr>
        \<and> (\<exists>ref. fst (debugger_Receive d cmd (Inr session)) = Ok ref)
        \<and> (''session-'' @ show_int (nextSessionID d + 1) \<notin> fst ` set sys \<longrightarrow>
              fst (debugger_Receive d cmd (Inr session)) = Ok session)"
    if c: "cmd = StartDebuggerCmd \<or> cmd = CreateSessionCmd" and s: "system d = Some sys"
      and n: "nextSessionID d \<noteq> 2 ^ 63 - 1"
  proof -
    from c have eq: "debugger_Receive d cmd (Inr session) = create_session d (Inr session)"
      by (auto simp: debugger_Receive_def)
    from debugger_Receive_creates[OF c s n, of session]
    have "snd (debugger_Receive d cmd (Inr session))
          = d\<lparr>nextSessionID := nextSessionID d + 1,
              system := Some (sys @ [(''session-'' @ show_int (nextSessionID d + 1), session)])\<rparr>"
      and "\<exists>ref. fst (debugger_Receive d cmd (Inr session)) = Ok ref"
      by auto
    moreover have "fst (debugger_Receive d cmd (Inr session)) = Ok session"
      if "''session-'' @ show_int (nextSessionID d + 1) \<notin> fst ` set sys"
      using create_session_fresh[OF s, of session] that incr_below[OF n] eq by simp
    ultimately show ?thesis by blast
  qed
  have fail: "debugger_Receive d cmd (Inl err)
          = (Err (WrapError ''could not create session: '' (Some err)), d)"
    if "cmd = StartDebuggerCmd \<or> cmd = CreateSessionCmd"
    using that by (auto simp: debugger_Receive_def create_session_failed)
  have increasing: "sorted_wrt (<) (map (\<lambda>i. nextSessionID d + 1 + int i) [0 ..< k])" for k
    by (simp add: sorted_wrt_map sorted_wrt_upt)
  have nil: "debugger_Receive d cmd (Inr session)
          = (Panic, d\<lparr>nextSessionID := incr (nextSessionID d)\<rparr>)"
    if "cmd = StartDebuggerCmd \<or> cmd = CreateSessionCmd" "system d = None"
    using that by (auto simp: debugger_Receive_def create_session_nil_system)
  have never: "Ok ref \<notin> set (fst (handle_all d cmds))
        \<and> registered_keys (snd (handle_all d cmds)) = []"
    if "system d = None"
    using handle_all_nil_system[OF that, of ref cmds] by (simp add: registered_keys_def)
  note ok = debugger_Receive_Ok[of d cmd new_session ref]
  from one fail handle_all_keys[of d sys cmds] session_ids_distinct[of "nextSessionID d"] increasing
  have first: "(cmd = StartDebuggerCmd \<or> cmd = CreateSessionCmd \<longrightarrow> system d = Some sys \<longrightarrow>
      nextSessionID d \<noteq> 2 ^ 63 - 1 \<longrightarrow>
        snd (debugger_Receive d cmd (Inr session))
          = d\<lparr>nextSessionID := nextSessionID d + 1,
              system := Some (sys @ [(''session-'' @ show_int (nextSessionID d + 1), session)])\<rparr>
        \<and> (\<exists>ref. fst (debugger_Receive d cmd (Inr session)) = Ok ref)
        \<and> (''session-'' @ show_int (nextSessionID d + 1) \<notin> fst ` set sys \<longrightarrow>
              fst (debugger_Receive d cmd (Inr session)) = Ok session))
   \<and> (cmd = StartDebuggerCmd \<or> cmd = CreateSessionCmd \<longrightarrow>
        debugger_Receive d cmd (Inl err)
          = (Err (WrapError ''could not create session: '' (Some err)), d))
   \<and> (system d = Some sys \<longrightarrow> nextSessionID d + int (length cmds) < 2 ^ 63 \<longrightarrow>
        nextSessionID (snd (handle_all d cmds))
          = nextSessionID d
            + int (length (filter (\<lambda>c. (fst c = StartDebuggerCmd \<or> fst c = CreateSessionCmd)
                                          \<and> \<not> isl (snd c)) cmds))
        \<and> registered_keys (snd (handle_all d cmds))
          = map fst sys @ map (\<lambda>i. ''session-'' @ show_int (nextSessionID d + 1 + int i))
              [0 ..< length (filter (\<lambda>c. (fst c = StartDebuggerCmd \<or> fst c = CreateSessionCmd)
                                          \<and> \<not> isl (snd c)) cmds)]
        \<and> distinct (map (\<lambda>i. ''session-'' @ show_int (nextSessionID d + 1 + int i))
              [0 ..< length (filter (\<lambda>c. (fst c = StartDebuggerCmd \<or> fst c = CreateSessionCmd)
                                          \<and> \<not> isl (snd c)) cmds)])
        \<and> sorted_wrt (<) (map (\<lambda>i. nextSessionID d + 1 + int i)
              [0 ..< length (filter (\<lambda>c. (fst c = StartDebuggerCmd \<or> fst c = CreateSessionCmd)
                                          \<and> \<not> isl (snd c)) cmds)])
        \<and> Panic \<notin> set (fst (handle_all d cmds)))"
    by blast
  from first ok nil never show ?thesis
    by (intro conjI impI) (blast+)
qed

theorem debugger_Receive_session_ids_witness:
  "registered_keys (snd (handle_all \<lparr>nextSessionID = 0, system = Some []\<rparr>
       [(CreateSessionCmd, Inr (1::nat)),
        (CreateSessionCmd, Inl (ErrorString ''could not find dlv'')),
        (StartDebuggerCmd, Inr 2)]))
     = [''session-1'', ''session-2'']
   \<and> nextSessionID (snd (handle_all \<lparr>nextSessionID = 0, system = Some []\<rparr>
       [(CreateSessionCmd, Inr (1::nat)),
        (CreateSessionCmd, Inl (ErrorString ''could not find dlv'')),
        (StartDebuggerCmd, Inr 2)])) = 2
   \<and> debugger_Receive \<lparr>nextSessionID = 0, system = Some []\<rparr> CreateSessionCmd
        (Inl (ErrorString ''could not find dlv''))
     = (Err (WrapError ''could not create session: '' (Some (ErrorString ''could not find dlv''))),
        \<lparr>nextSessionID = 0, system = Some ([] :: (string \<times> nat) list)\<rparr>)
   \<and> debugger_Receive \<lparr>nextSessionID = 0, system = None\<rparr> CreateSessionCmd (Inr (1::nat))
     = (Panic, \<lparr>nextSessionID = 1, system = None\<rparr>)"
proof -
  let ?d = "\<lparr>nextSessionID = 0, system = Some ([] :: (string \<times> nat) list)\<rparr>"
  let ?nil = "\<lparr>nextSessionID = 0, system = None :: (string \<times> nat) list option\<rparr>"
  let ?cmds = "[(CreateSessionCmd, Inr (1::nat)),
        (CreateSessionCmd, Inl (ErrorString ''could not find dlv'')),
        (StartDebuggerCmd, Inr 2)]"
  note ids = debugger_Receive_session_ids
    [where cmd = CreateSessionCmd and d = ?d and sys = "[]" and session = 1
       and err = "ErrorString ''could not find dlv''" and cmds = ?cmds]
  note nil = debugger_Receive_session_ids
    [where cmd = CreateSessionCmd and d = ?nil and session = 1]
  have sys: "system ?d = Some []" by simp
  have room: "nextSessionID ?d + int (length ?cmds) < 2 ^ 63" by simp
  have count: "length (filter (\<lambda>c. (fst c = StartDebuggerCmd \<or> fst c = CreateSessionCmd)
                                          \<and> \<not> isl (snd c)) ?cmds) = 2"
    by simp
  have s1: "show_int 1 = ''1''" by code_simp
  have s2: "show_int 2 = ''2''" by code_simp
  have upt: "[0 ..< 2] = [0, Suc 0]" by (simp add: upt_conv_Cons)
  from ids[THEN conjunct2, THEN conjunct2, THEN conjunct1, THEN mp, OF sys, THEN mp, OF room]
  have a: "registered_keys (snd (handle_all ?d ?cmds)) = [''session-1'', ''session-2'']"
    and b: "nextSessionID (snd (handle_all ?d ?cmds)) = 2"
    unfolding count upt by (simp_all add: s1 s2)
  from ids[THEN conjunct2, THEN conjunct1]
  have c: "debugger_Receive ?d CreateSessionCmd (Inl (ErrorString ''could not find dlv''))
     = (Err (WrapError ''could not create session: '' (Some (ErrorString ''could not find dlv''))),
        ?d)"
    by simp
  have creation: "CreateSessionCmd = StartDebuggerCmd \<or> CreateSessionCmd = CreateSessionCmd"
    by simp
  have none: "system ?nil = None" by simp
  from nil[THEN conjunct2, THEN conjunct2, THEN conjunct2, THEN conjunct2, THEN conjunct1,
           THEN mp, OF creation, THEN mp, OF none]
  have e: "debugger_Receive ?nil CreateSessionCmd (Inr 1) = (Panic, \<lparr>nextSessionID = 1, system = None\<rparr>)"
    by (simp add: incr_def)
  from a b c e show ?thesis by (intro conjI)
qed

section \<open>Properties of the retry helper\<close>












end
